theory Spec2Isabelle
  imports Main
begin

section \<open>Python values, exceptions and the library calls the examples use\<close>

text \<open>
  The two example scripts (\<^verbatim>\<open>examples/autogen-agent.py\<close>, \<^verbatim>\<open>examples/crewai-agent.py\<close>)
  handle only values that \<^verbatim>\<open>json.load\<close> produces and the literals they write themselves,
  so one datatype serves for JSON documents and for Python objects. A Python \<^verbatim>\<open>dict\<close> is an
  association list in insertion order; a lookup takes the first binding of a key.

  A float is \<open>m * 2 ^ e\<close>, an infinity or a NaN (\<^verbatim>\<open>json.load\<close> accepts \<^verbatim>\<open>Infinity\<close> and
  \<^verbatim>\<open>NaN\<close>). The scripts never compute with floats; they only test them for truth.
\<close>

datatype pyfloat = Finite int int | Inf bool | NaN

datatype json =
    JNull
  | JBool bool
  | JInt int
  | JFloat pyfloat
  | JStr string
  | JArr "json list"
  | JObj "(string \<times> json) list"

type_synonym pydict = "(string \<times> json) list"

text \<open>
  An exception is the class that matters for reading the model and the data its message is
  built from. \<open>str_exn\<close> is Python's \<^verbatim>\<open>str(e)\<close>. Exceptions raised by library calls
  (\<^verbatim>\<open>subprocess.run\<close>, \<^verbatim>\<open>os.listdir\<close>, \<^verbatim>\<open>os.path.getctime\<close>, \<^verbatim>\<open>open\<close>, \<^verbatim>\<open>json.load\<close>)
  carry their message as data. All of them are subclasses of \<^verbatim>\<open>Exception\<close>.
\<close>

datatype pyexn =
    OSError string
  | JSONDecodeError string
  | AttributeError string string
  | KeyError string
  | TypeError string
  | ValueError string
  | OtherException string

definition quoted :: "string \<Rightarrow> string" where
  "quoted s = CHR 0x27 # s @ [CHR 0x27]"

fun str_exn :: "pyexn \<Rightarrow> string" where
  "str_exn (OSError m) = m"
| "str_exn (JSONDecodeError m) = m"
| "str_exn (AttributeError ty attr) =
     quoted ty @ '' object has no attribute '' @ quoted attr"
| "str_exn (KeyError k) = quoted k"
| "str_exn (TypeError m) = m"
| "str_exn (ValueError m) = m"
| "str_exn (OtherException m) = m"

fun type_name :: "json \<Rightarrow> string" where
  "type_name JNull = ''NoneType''"
| "type_name (JBool _) = ''bool''"
| "type_name (JInt _) = ''int''"
| "type_name (JFloat _) = ''float''"
| "type_name (JStr _) = ''str''"
| "type_name (JArr _) = ''list''"
| "type_name (JObj _) = ''dict''"

text \<open>Truth value testing, as \<^verbatim>\<open>if x:\<close>, \<^verbatim>\<open>not x\<close> and \<^verbatim>\<open>x or y\<close> do it.\<close>

fun float_truthy :: "pyfloat \<Rightarrow> bool" where
  "float_truthy (Finite m e) = (m \<noteq> 0)"
| "float_truthy (Inf _) = True"
| "float_truthy NaN = True"

fun truthy :: "json \<Rightarrow> bool" where
  "truthy JNull = False"
| "truthy (JBool b) = b"
| "truthy (JInt n) = (n \<noteq> 0)"
| "truthy (JFloat f) = float_truthy f"
| "truthy (JStr s) = (s \<noteq> [])"
| "truthy (JArr xs) = (xs \<noteq> [])"
| "truthy (JObj kvs) = (kvs \<noteq> [])"

text \<open>
  \<^verbatim>\<open>d.get(k, default)\<close>: only a dict has the method; on anything else the attribute
  lookup raises \<^verbatim>\<open>AttributeError\<close>.
\<close>

fun py_get :: "json \<Rightarrow> string \<Rightarrow> json \<Rightarrow> pyexn + json" where
  "py_get (JObj kvs) k dflt = Inr (case map_of kvs k of Some v \<Rightarrow> v | None \<Rightarrow> dflt)"
| "py_get v k dflt = Inl (AttributeError (type_name v) ''get'')"

text \<open>
  \<^verbatim>\<open>d[k]\<close> with a string key: \<^verbatim>\<open>KeyError\<close> on a dict without the key,
  \<^verbatim>\<open>TypeError\<close> on every other type (messages as CPython 3.11 writes them).
\<close>

fun py_getitem :: "json \<Rightarrow> string \<Rightarrow> pyexn + json" where
  "py_getitem (JObj kvs) k = (case map_of kvs k of Some v \<Rightarrow> Inr v | None \<Rightarrow> Inl (KeyError k))"
| "py_getitem (JArr xs) k = Inl (TypeError ''list indices must be integers or slices, not str'')"
| "py_getitem (JStr s) k = Inl (TypeError (''string indices must be integers, not '' @ quoted ''str''))"
| "py_getitem v k = Inl (TypeError (quoted (type_name v) @ '' object is not subscriptable''))"

text \<open>Sequencing of computations that may raise: the first exception wins.\<close>

definition try_bind :: "pyexn + 'a \<Rightarrow> ('a \<Rightarrow> pyexn + 'b) \<Rightarrow> pyexn + 'b" where
  "try_bind m f = (case m of Inl e \<Rightarrow> Inl e | Inr a \<Rightarrow> f a)"

text \<open>\<^verbatim>\<open>s.endswith(suffix)\<close> and \<^verbatim>\<open>os.path.join(a, b)\<close> (POSIX, two components).\<close>

definition endswith :: "string \<Rightarrow> string \<Rightarrow> bool" where
  "endswith s suf = (length suf \<le> length s \<and> drop (length s - length suf) s = suf)"

definition path_join :: "string \<Rightarrow> string \<Rightarrow> string" where
  "path_join a b =
     (if b \<noteq> [] \<and> hd b = CHR ''/'' then b
      else if a = [] \<or> last a = CHR ''/'' then a @ b
      else a @ ''/'' @ b)"

section \<open>The world: the external process and the file system\<close>

text \<open>
  \<^verbatim>\<open>subprocess.run(cmd, capture_output=True, text=True, cwd=...)\<close> either raises or returns
  a completed process. The file system is what the script observes once the process has
  exited: \<^verbatim>\<open>os.listdir\<close>, \<^verbatim>\<open>os.path.getctime\<close>, and \<^verbatim>\<open>open\<close> followed by \<^verbatim>\<open>json.load\<close>,
  each of which may raise. The trace records every call the script makes to the outside, in
  order; the scripts call nothing that writes.

  \<open>ctime\<close> is what \<^verbatim>\<open>os.path.getctime\<close> returns: on POSIX, whose paths the model has, the
  time of the last change of the file's inode (a write, a \<^verbatim>\<open>chmod\<close>, a rename), and the time
  of creation only on Windows. \<open>birthtime\<close> is the time at which the file was created; the
  scripts never read it. The two agree for a file that nothing has touched since it was
  created. Times are values of any linear order.
\<close>

record completed_process =
  returncode :: int
  stdout :: string
  stderr :: string

datatype event =
    Subprocess_run "json list" string
  | Listdir string
  | Getctime string
  | Open_json_load string

record 't world =
  run_outcome :: "json list \<Rightarrow> string \<Rightarrow> pyexn + completed_process"
  dir_entries :: "string \<Rightarrow> pyexn + string list"
  ctime :: "string \<Rightarrow> pyexn + 't"
  file_json :: "string \<Rightarrow> pyexn + json"
  birthtime :: "string \<Rightarrow> 't"
  trace :: "event list"

type_synonym ('a, 't) io = "'t world \<Rightarrow> (pyexn + 'a) \<times> 't world"

definition subprocess_run :: "json list \<Rightarrow> string \<Rightarrow> (completed_process, 't) io" where
  "subprocess_run cmd cwd w = (run_outcome w cmd cwd, w\<lparr>trace := trace w @ [Subprocess_run cmd cwd]\<rparr>)"

definition os_listdir :: "string \<Rightarrow> (string list, 't) io" where
  "os_listdir d w = (dir_entries w d, w\<lparr>trace := trace w @ [Listdir d]\<rparr>)"

definition os_path_getctime :: "string \<Rightarrow> ('t, 't) io" where
  "os_path_getctime p w = (ctime w p, w\<lparr>trace := trace w @ [Getctime p]\<rparr>)"

definition open_json_load :: "string \<Rightarrow> (json, 't) io" where
  "open_json_load p w = (file_json w p, w\<lparr>trace := trace w @ [Open_json_load p]\<rparr>)"

definition io_bind :: "('a, 't) io \<Rightarrow> ('a \<Rightarrow> ('b, 't) io) \<Rightarrow> ('b, 't) io" where
  "io_bind m f w = (case m w of (Inl e, w') \<Rightarrow> (Inl e, w') | (Inr a, w') \<Rightarrow> f a w')"

definition io_return :: "pyexn + 'a \<Rightarrow> ('a, 't) io" where
  "io_return r w = (r, w)"

text \<open>
  \<^verbatim>\<open>max(json_files, key=lambda x: os.path.getctime(os.path.join(output_dir, x)))\<close>:
  the key of every element is computed once, in order, and the running maximum is replaced
  only by a strictly greater key, so that of several files with the greatest key the first
  listed is kept.
  On an empty list \<^verbatim>\<open>max\<close> raises \<^verbatim>\<open>ValueError\<close>.
\<close>

fun max_loop :: "string \<Rightarrow> string list \<Rightarrow> string \<times> 't::linorder \<Rightarrow> (string, 't) io" where
  "max_loop d [] best w = (Inr (fst best), w)"
| "max_loop d (x # xs) best w =
     (case os_path_getctime (path_join d x) w of
        (Inl e, w') \<Rightarrow> (Inl e, w')
      | (Inr t, w') \<Rightarrow> max_loop d xs (if t > snd best then (x, t) else best) w')"

fun max_by_getctime :: "string \<Rightarrow> string list \<Rightarrow> (string, 't::linorder) io" where
  "max_by_getctime d [] w = (Inl (ValueError ''max() arg is an empty sequence''), w)"
| "max_by_getctime d (x # xs) w =
     (case os_path_getctime (path_join d x) w of
        (Inl e, w') \<Rightarrow> (Inl e, w')
      | (Inr t, w') \<Rightarrow> max_loop d xs (x, t) w')"

text \<open>The failure record both scripts build at the end of the \<^verbatim>\<open>try\<close> suite and in the handler.\<close>

definition failed :: "string \<Rightarrow> pydict" where
  "failed msg = [(''success'', JBool False), (''error'', JStr msg)]"

definition stderr_or_default :: "completed_process \<Rightarrow> string" where
  "stderr_or_default result = (if stderr result \<noteq> [] then stderr result else ''Transcription failed'')"

section \<open>\<^verbatim>\<open>VideoTranscriptionCapability.transcribe_video\<close> (autogen-agent.py)\<close>

text \<open>\<^verbatim>\<open>data.get('enhancement', {}).get(k, default)\<close>\<close>

definition enhancement_get :: "json \<Rightarrow> string \<Rightarrow> json \<Rightarrow> pyexn + json" where
  "enhancement_get data k dflt =
     try_bind (py_get data ''enhancement'' (JObj [])) (\<lambda>enh. py_get enh k dflt)"

text \<open>
  The dict display of lines 47-54. Its values are evaluated in order;
  \<^verbatim>\<open>data['transcription']['fullText']\<close> is evaluated only when the enhanced text is falsy.
\<close>

definition autogen_record :: "json \<Rightarrow> pyexn + pydict" where
  "autogen_record data =
     try_bind (try_bind (enhancement_get data ''enhancedText'' JNull)
                 (\<lambda>et. if truthy et then Inr et
                       else try_bind (py_getitem data ''transcription'')
                              (\<lambda>t. py_getitem t ''fullText''))) (\<lambda>transcription.
     try_bind (enhancement_get data ''summary'' JNull) (\<lambda>summary.
     try_bind (enhancement_get data ''keyPoints'' (JArr [])) (\<lambda>keyPoints.
     try_bind (enhancement_get data ''topics'' (JArr [])) (\<lambda>topics.
     try_bind (enhancement_get data ''sentiment'' JNull) (\<lambda>sentiment.
     Inr [(''success'', JBool True),
          (''transcription'', transcription),
          (''summary'', summary),
          (''keyPoints'', keyPoints),
          (''topics'', topics),
          (''sentiment'', sentiment)])))))"

text \<open>
  Lines 40-54, the body of \<^verbatim>\<open>if result.returncode == 0:\<close>. \<open>Some r\<close> is
  \<^verbatim>\<open>return r\<close>; \<open>None\<close> is falling out of the block (no matching file), after which
  the script builds the failure record from the process's stderr.
\<close>

definition autogen_locate :: "string \<Rightarrow> (pydict option, 't::linorder) io" where
  "autogen_locate agent_path =
     (let output_dir = path_join agent_path ''output'' in
      io_bind (os_listdir output_dir) (\<lambda>names.
      let json_files = filter (\<lambda>f. endswith f ''_transcription.json'') names in
      if json_files \<noteq> [] then
        io_bind (max_by_getctime output_dir json_files) (\<lambda>latest_file.
        io_bind (open_json_load (path_join output_dir latest_file)) (\<lambda>data.
        io_return (try_bind (autogen_record data) (\<lambda>r. Inr (Some r)))))
      else io_return (Inr None)))"

text \<open>The \<^verbatim>\<open>try\<close> suite, lines 25-59.\<close>

definition autogen_cmd :: "string \<Rightarrow> string \<Rightarrow> bool \<Rightarrow> json list" where
  "autogen_cmd agent_path video_path enhance =
     [JStr ''node'', JStr (path_join agent_path ''dist/index.js''),
      JStr ''transcribe'', JStr video_path, JStr ''--format'', JStr ''json'']
     @ (if enhance then [JStr ''--enhance''] else [])"

definition autogen_try :: "string \<Rightarrow> string \<Rightarrow> bool \<Rightarrow> (pydict, 't::linorder) io" where
  "autogen_try agent_path video_path enhance =
     (let cmd = autogen_cmd agent_path video_path enhance in
      io_bind (subprocess_run cmd agent_path) (\<lambda>result.
      if returncode result = 0 then
        io_bind (autogen_locate agent_path) (\<lambda>found.
        case found of
          Some r \<Rightarrow> io_return (Inr r)
        | None \<Rightarrow> io_return (Inr (failed (stderr_or_default result))))
      else io_return (Inr (failed (stderr_or_default result)))))"

text \<open>The whole method: \<^verbatim>\<open>except Exception as e\<close> turns every exception into a record.\<close>

definition transcribe_video :: "string \<Rightarrow> string \<Rightarrow> bool \<Rightarrow> 't::linorder world \<Rightarrow> pydict \<times> 't world" where
  "transcribe_video agent_path video_path enhance w =
     (case autogen_try agent_path video_path enhance w of
        (Inl e, w') \<Rightarrow> (failed (str_exn e), w')
      | (Inr r, w') \<Rightarrow> (r, w'))"

section \<open>\<^verbatim>\<open>VideoTranscriptionTool._run\<close> (crewai-agent.py)\<close>

text \<open>
  The tool takes a string and returns a string. The argument is represented by the outcome
  of \<^verbatim>\<open>json.loads(input_data)\<close>, which either raises or yields a value; the returned
  string \<^verbatim>\<open>json.dumps(d)\<close> or \<^verbatim>\<open>json.dumps(d, indent=2)\<close> is represented by the dict it
  serialises and the indentation. Every value the script serialises is a string, a boolean
  or comes out of \<^verbatim>\<open>json.load\<close>, so \<^verbatim>\<open>json.dumps\<close> does not raise.
\<close>

datatype json_text = Json_dumps (payload: pydict) (indent: "nat option")

text \<open>The dict display of lines 69-78, after the two lookups of lines 66-67.\<close>

definition crewai_record :: "json \<Rightarrow> pyexn + pydict" where
  "crewai_record data =
     try_bind (py_get data ''enhancement'' (JObj [])) (\<lambda>enhancement.
     try_bind (py_get data ''transcription'' (JObj [])) (\<lambda>transcription.
     try_bind (try_bind (py_get enhancement ''enhancedText'' JNull)
                 (\<lambda>et. if truthy et then Inr et
                       else py_get transcription ''fullText'' (JStr []))) (\<lambda>text.
     try_bind (py_get enhancement ''summary'' (JStr [])) (\<lambda>summary.
     try_bind (py_get enhancement ''keyPoints'' (JArr [])) (\<lambda>key_points.
     try_bind (py_get enhancement ''topics'' (JArr [])) (\<lambda>topics.
     try_bind (py_get enhancement ''sentiment'' (JStr ''neutral'')) (\<lambda>sentiment.
     try_bind (py_get transcription ''confidence'' (JInt 0)) (\<lambda>confidence.
     try_bind (try_bind (py_get data ''metadata'' (JObj [])) (\<lambda>metadata.
               try_bind (py_get metadata ''processingOptions'' (JObj [])) (\<lambda>opts.
               py_get opts ''outputFiles'' (JArr [])))) (\<lambda>output_files.
     Inr [(''success'', JBool True),
          (''transcription'', text),
          (''summary'', summary),
          (''key_points'', key_points),
          (''topics'', topics),
          (''sentiment'', sentiment),
          (''confidence'', confidence),
          (''output_files'', output_files)])))))))))"

text \<open>Lines 58-78, the body of \<^verbatim>\<open>if result.returncode == 0:\<close>.\<close>

definition crewai_locate :: "string \<Rightarrow> (json_text option, 't::linorder) io" where
  "crewai_locate agent_path =
     (let output_dir = path_join agent_path ''output'' in
      io_bind (os_listdir output_dir) (\<lambda>names.
      let json_files = filter (\<lambda>f. endswith f ''_transcription.json'') names in
      if json_files \<noteq> [] then
        io_bind (max_by_getctime output_dir json_files) (\<lambda>latest_file.
        io_bind (open_json_load (path_join output_dir latest_file)) (\<lambda>data.
        io_return (try_bind (crewai_record data) (\<lambda>r. Inr (Some (Json_dumps r (Some 2)))))))
      else io_return (Inr None)))"

text \<open>The \<^verbatim>\<open>try\<close> suite, lines 33-83; \<open>input_data\<close> is the outcome of \<^verbatim>\<open>json.loads\<close>.\<close>

definition crewai_cmd :: "string \<Rightarrow> json \<Rightarrow> json \<Rightarrow> json \<Rightarrow> json list" where
  "crewai_cmd agent_path video_path output_format enhance =
     [JStr ''node'', JStr (path_join agent_path ''packages/cli/dist/cli.js''),
      JStr ''transcribe'', video_path, JStr ''--format'', output_format]
     @ (if truthy enhance then [JStr ''--enhance''] else [])"

definition crewai_try :: "string \<Rightarrow> pyexn + json \<Rightarrow> (json_text, 't::linorder) io" where
  "crewai_try agent_path input_data =
     io_bind (io_return input_data) (\<lambda>data.
     io_bind (io_return (py_get data ''video_path'' JNull)) (\<lambda>video_path.
     io_bind (io_return (py_get data ''enhance'' (JBool True))) (\<lambda>enhance.
     io_bind (io_return (py_get data ''output_format'' (JStr ''json''))) (\<lambda>output_format.
     if \<not> truthy video_path then
       io_return (Inr (Json_dumps [(''error'', JStr ''video_path is required'')] None))
     else
       (let cmd = crewai_cmd agent_path video_path output_format enhance in
        io_bind (subprocess_run cmd agent_path) (\<lambda>result.
        if returncode result = 0 then
          io_bind (crewai_locate agent_path) (\<lambda>found.
          case found of
            Some r \<Rightarrow> io_return (Inr r)
          | None \<Rightarrow> io_return (Inr (Json_dumps (failed (stderr_or_default result)) None)))
        else io_return (Inr (Json_dumps (failed (stderr_or_default result)) None))))))))"

definition VideoTranscriptionTool_run :: "string \<Rightarrow> pyexn + json \<Rightarrow> 't::linorder world \<Rightarrow> json_text \<times> 't world" where
  "VideoTranscriptionTool_run agent_path input_data w =
     (case crewai_try agent_path input_data w of
        (Inl e, w') \<Rightarrow> (Json_dumps (failed (str_exn e)) None, w')
      | (Inr r, w') \<Rightarrow> (r, w'))"

section \<open>Vocabulary for the properties\<close>

text \<open>The directory both scripts list, and the names that pass the suffix filter.\<close>

abbreviation the_output_dir :: "string \<Rightarrow> string" where
  "the_output_dir agent_path \<equiv> path_join agent_path ''output''"

abbreviation matching_files :: "string list \<Rightarrow> string list" where
  "matching_files names \<equiv> filter (\<lambda>f. endswith f ''_transcription.json'') names"

text \<open>
  The two scripts share their control flow and differ in the record they build and in
  whether the record is serialised. The shared shape, with both as parameters, is what
  the lemmas below are proved about; \<open>autogen_shape\<close> and \<open>crewai_shape\<close> show that
  each script is an instance.
\<close>

definition locate_with :: "(json \<Rightarrow> pyexn + 'r) \<Rightarrow> string \<Rightarrow> ('r option, 't::linorder) io" where
  "locate_with build agent_path =
     io_bind (os_listdir (the_output_dir agent_path)) (\<lambda>names.
     if matching_files names \<noteq> [] then
       io_bind (max_by_getctime (the_output_dir agent_path) (matching_files names)) (\<lambda>latest_file.
       io_bind (open_json_load (path_join (the_output_dir agent_path) latest_file)) (\<lambda>data.
       io_return (try_bind (build data) (\<lambda>r. Inr (Some r)))))
     else io_return (Inr None))"

definition after_run ::
  "(pydict \<Rightarrow> 'r) \<Rightarrow> (json \<Rightarrow> pyexn + 'r) \<Rightarrow> json list \<Rightarrow> string \<Rightarrow> ('r, 't::linorder) io" where
  "after_run wrap build cmd agent_path =
     io_bind (subprocess_run cmd agent_path) (\<lambda>result.
     if returncode result = 0 then
       io_bind (locate_with build agent_path) (\<lambda>found.
       case found of
         Some r \<Rightarrow> io_return (Inr r)
       | None \<Rightarrow> io_return (Inr (wrap (failed (stderr_or_default result)))))
     else io_return (Inr (wrap (failed (stderr_or_default result)))))"

definition handled :: "(pydict \<Rightarrow> 'r) \<Rightarrow> ('r, 't) io \<Rightarrow> 't world \<Rightarrow> 'r \<times> 't world" where
  "handled wrap m w =
     (case m w of (Inl e, w') \<Rightarrow> (wrap (failed (str_exn e)), w') | (Inr r, w') \<Rightarrow> (r, w'))"

definition compact :: "pydict \<Rightarrow> json_text" where
  "compact d = Json_dumps d None"

definition crewai_build :: "json \<Rightarrow> pyexn + json_text" where
  "crewai_build data = try_bind (crewai_record data) (\<lambda>r. Inr (Json_dumps r (Some 2)))"

text \<open>
  What each script returns once it has opened an artifact: the outcome of
  \<^verbatim>\<open>open\<close> and \<^verbatim>\<open>json.load\<close> on it decides the rest.
\<close>

definition result_of_artifact :: "(pydict \<Rightarrow> 'r) \<Rightarrow> (json \<Rightarrow> pyexn + 'r) \<Rightarrow> pyexn + json \<Rightarrow> 'r" where
  "result_of_artifact wrap build loaded =
     (case loaded of
        Inl e \<Rightarrow> wrap (failed (str_exn e))
      | Inr data \<Rightarrow> (case build data of Inl e \<Rightarrow> wrap (failed (str_exn e)) | Inr r \<Rightarrow> r))"

definition autogen_result_of :: "pyexn + json \<Rightarrow> pydict" where
  "autogen_result_of loaded = result_of_artifact id autogen_record loaded"

definition crewai_result_of :: "pyexn + json \<Rightarrow> json_text" where
  "crewai_result_of loaded = result_of_artifact compact crewai_build loaded"

text \<open>
  The two shapes of the invariant on results. Text content is present when the
  \<open>transcription\<close> entry holds a string that is not empty: \<^verbatim>\<open>None\<close>, the empty string and
  a value that is not a string are no text. An error message is present when the \<open>error\<close>
  entry holds a string. A third shape is a record that reports success without text.
\<close>

definition has_field :: "pydict \<Rightarrow> string \<Rightarrow> bool" where
  "has_field r k = (map_of r k \<noteq> None)"









definition validation_record :: pydict where
  "validation_record = [(''error'', JStr ''video_path is required'')]"

section \<open>Concrete documents and worlds\<close>

text \<open>The artifact of the end-to-end scenario; the float nearest to 0.9 is \<open>8106479329266893 * 2 ^ -53\<close>.\<close>

definition doc_full :: json where
  "doc_full = JObj
     [(''transcription'', JObj [(''fullText'', JStr ''hello world''), (''confidence'', JFloat (Finite 8106479329266893 (-53)))]),
      (''enhancement'', JObj [(''enhancedText'', JStr ''Hello, world.''), (''summary'', JStr ''greeting''),
                              (''keyPoints'', JArr [JStr ''greeting'']), (''topics'', JArr [JStr ''intro'']),
                              (''sentiment'', JStr ''neutral'')])]"

text \<open>An artifact written without the enhancement stage.\<close>

definition doc_raw :: json where
  "doc_raw = JObj
     [(''transcription'', JObj [(''fullText'', JStr ''hello world''), (''confidence'', JFloat (Finite 8106479329266893 (-53)))])]"

text \<open>An artifact whose enhancement stage produced an empty text.\<close>

definition doc_empty_enhanced :: json where
  "doc_empty_enhanced = JObj
     [(''transcription'', JObj [(''fullText'', JStr ''hello world''), (''confidence'', JFloat (Finite 8106479329266893 (-53)))]),
      (''enhancement'', JObj [(''enhancedText'', JStr [])])]"



text \<open>
  A world is given by what the process returns, the names in \<^verbatim>\<open>agent/output\<close> and, for
  each file, its time and the outcome of loading it. The files of such a world have not
  been touched since they were created: \<^verbatim>\<open>os.path.getctime\<close> gives their creation time.
\<close>

definition mk_world ::
  "(pyexn + completed_process) \<Rightarrow> (pyexn + string list) \<Rightarrow> (string \<times> nat \<times> (pyexn + json)) list \<Rightarrow> nat world" where
  "mk_world proc listing files =
     \<lparr> run_outcome = (\<lambda>cmd cwd. proc),
       dir_entries = (\<lambda>d. if d = ''agent/output'' then listing
                          else Inl (OSError ''[Errno 2] No such file or directory'')),
       ctime = (\<lambda>p. case map_of files p of Some (t, c) \<Rightarrow> Inr t
                     | None \<Rightarrow> Inl (OSError ''[Errno 2] No such file or directory'')),
       file_json = (\<lambda>p. case map_of files p of Some (t, c) \<Rightarrow> c
                     | None \<Rightarrow> Inl (OSError ''[Errno 2] No such file or directory'')),
       birthtime = (\<lambda>p. case map_of files p of Some (t, c) \<Rightarrow> t | None \<Rightarrow> 0),
       trace = [] \<rparr>"

definition exit_ok :: "pyexn + completed_process" where
  "exit_ok = Inr \<lparr>returncode = 0, stdout = [], stderr = []\<rparr>"

definition exit_1_silent :: "pyexn + completed_process" where
  "exit_1_silent = Inr \<lparr>returncode = 1, stdout = [], stderr = []\<rparr>"

definition exit_1_message :: "pyexn + completed_process" where
  "exit_1_message = Inr \<lparr>returncode = 1, stdout = [], stderr = ''ffmpeg not found''\<rparr>"

text \<open>Two matching artifacts, A created at 1 and B created at 2, and a file that does not match.\<close>

definition world_ab :: "nat world" where
  "world_ab = mk_world exit_ok
     (Inr [''A_transcription.json'', ''notes.txt'', ''B_transcription.json''])
     [(''agent/output/A_transcription.json'', 1, Inr doc_raw),
      (''agent/output/B_transcription.json'', 2, Inr doc_full),
      (''agent/output/notes.txt'', 3, Inl (JSONDecodeError ''Expecting value: line 1 column 1 (char 0)''))]"

text \<open>
  A was created at 1 and B at 2; at 3 the inode of A changed (a \<^verbatim>\<open>chmod\<close>, say), so
  that \<^verbatim>\<open>os.path.getctime\<close> gives 3 for A.
\<close>

definition world_a_touched :: "nat world" where
  "world_a_touched =
     (mk_world exit_ok (Inr [''A_transcription.json'', ''B_transcription.json''])
        [(''agent/output/A_transcription.json'', 3, Inr doc_raw),
         (''agent/output/B_transcription.json'', 2, Inr doc_full)])
     \<lparr>birthtime := (\<lambda>p. if p = ''agent/output/A_transcription.json'' then 1
                         else if p = ''agent/output/B_transcription.json'' then 2 else 0)\<rparr>"

text \<open>
  Two matching names, the second a symbolic link to a file that no longer exists: it is
  listed, and \<^verbatim>\<open>os.path.getctime\<close> raises on it.
\<close>

definition world_dangling :: "nat world" where
  "world_dangling = mk_world exit_ok (Inr [''A_transcription.json'', ''B_transcription.json''])
     [(''agent/output/A_transcription.json'', 1, Inr doc_raw)]"

definition world_empty_dir :: "nat world" where
  "world_empty_dir = mk_world exit_ok (Inr []) []"

text \<open>The message of the \<^verbatim>\<open>FileNotFoundError\<close> that \<^verbatim>\<open>os.listdir\<close> raises.\<close>

definition no_such_directory :: string where
  "no_such_directory = ''[Errno 2] No such file or directory: '' @ quoted ''agent/output''"

definition world_no_dir :: "nat world" where
  "world_no_dir = mk_world exit_ok (Inl (OSError no_such_directory)) []"

definition world_malformed :: "nat world" where
  "world_malformed = mk_world exit_ok (Inr [''A_transcription.json''])
     [(''agent/output/A_transcription.json'', 1,
       Inl (JSONDecodeError ''Expecting value: line 1 column 1 (char 0)''))]"

text \<open>A directory that holds one matching file, with the given outcome of loading it.\<close>

definition world_of_artifact :: "pyexn + json \<Rightarrow> nat world" where
  "world_of_artifact loaded = mk_world exit_ok (Inr [''A_transcription.json''])
     [(''agent/output/A_transcription.json'', 1, loaded)]"

definition world_exit_1_silent :: "nat world" where
  "world_exit_1_silent = mk_world exit_1_silent (Inr [''A_transcription.json''])
     [(''agent/output/A_transcription.json'', 1, Inr doc_full)]"

definition world_exit_1_message :: "nat world" where
  "world_exit_1_message = mk_world exit_1_message (Inr [''A_transcription.json''])
     [(''agent/output/A_transcription.json'', 1, Inr doc_full)]"

text \<open>The process cannot be started: \<^verbatim>\<open>subprocess.run\<close> raises \<^verbatim>\<open>FileNotFoundError\<close>.\<close>

definition no_such_program :: string where
  "no_such_program = ''[Errno 2] No such file or directory: '' @ quoted ''node''"

definition world_no_node :: "nat world" where
  "world_no_node = mk_world (Inl (OSError no_such_program)) (Inr []) []"

definition input_ok :: "pyexn + json" where
  "input_ok = Inr (JObj [(''video_path'', JStr ''talk.mp4'')])"

section \<open>Lemmas about the model\<close>

lemma try_bind_simps:
  "try_bind (Inl e) f = Inl e"
  "try_bind (Inr a) f = f a"
  by (simp_all add: try_bind_def)

lemma io_bind_simps:
  "m w = (Inl e, w') \<Longrightarrow> io_bind m f w = (Inl e, w')"
  "m w = (Inr a, w') \<Longrightarrow> io_bind m f w = f a w'"
  by (simp_all add: io_bind_def)

text \<open>What the selection loop does to the world: it appends ctime queries to the trace.\<close>

lemma max_loop_world:
  "\<exists>evs. snd (max_loop d xs best w) = w\<lparr>trace := trace w @ evs\<rparr>
        \<and> (\<forall>ev \<in> set evs. \<exists>p. ev = Getctime p)"
proof (induction xs arbitrary: best w)
  case Nil
  have "snd (max_loop d [] best w) = w\<lparr>trace := trace w @ []\<rparr>" by simp
  then show ?case by (intro exI[of _ "[]"]) simp
next
  case (Cons x xs)
  let ?p = "path_join d x"
  let ?w1 = "w\<lparr>trace := trace w @ [Getctime ?p]\<rparr>"
  show ?case
  proof (cases "ctime w ?p")
    case (Inl e)
    then have "snd (max_loop d (x # xs) best w) = w\<lparr>trace := trace w @ [Getctime ?p]\<rparr>"
      by (simp add: os_path_getctime_def)
    then show ?thesis by (intro exI[of _ "[Getctime ?p]"]) simp
  next
    case (Inr t)
    let ?b = "if t > snd best then (x, t) else best"
    from Cons.IH[of ?b ?w1] obtain evs where
      evs: "snd (max_loop d xs ?b ?w1) = ?w1\<lparr>trace := trace ?w1 @ evs\<rparr>"
        "\<forall>ev \<in> set evs. \<exists>p. ev = Getctime p" by blast
    from Inr have "snd (max_loop d (x # xs) best w) = snd (max_loop d xs ?b ?w1)"
      by (simp add: os_path_getctime_def)
    with evs(1) have "snd (max_loop d (x # xs) best w) = w\<lparr>trace := trace w @ (Getctime ?p # evs)\<rparr>"
      by simp
    with evs(2) show ?thesis by (intro exI[of _ "Getctime ?p # evs"]) simp
  qed
qed

lemma max_by_getctime_world:
  "\<exists>evs. snd (max_by_getctime d xs w) = w\<lparr>trace := trace w @ evs\<rparr>
        \<and> (\<forall>ev \<in> set evs. \<exists>p. ev = Getctime p)"
proof (cases xs)
  case Nil
  have "snd (max_by_getctime d [] w) = w\<lparr>trace := trace w @ []\<rparr>" by simp
  with Nil show ?thesis by (intro exI[of _ "[]"]) simp
next
  case (Cons x ys)
  let ?p = "path_join d x"
  let ?w1 = "w\<lparr>trace := trace w @ [Getctime ?p]\<rparr>"
  show ?thesis
  proof (cases "ctime w ?p")
    case (Inl e)
    with Cons have "snd (max_by_getctime d xs w) = w\<lparr>trace := trace w @ [Getctime ?p]\<rparr>"
      by (simp add: os_path_getctime_def)
    then show ?thesis by (intro exI[of _ "[Getctime ?p]"]) simp
  next
    case (Inr t)
    from max_loop_world[of d ys "(x, t)" ?w1] obtain evs where
      evs: "snd (max_loop d ys (x, t) ?w1) = ?w1\<lparr>trace := trace ?w1 @ evs\<rparr>"
        "\<forall>ev \<in> set evs. \<exists>p. ev = Getctime p" by blast
    from Inr Cons have "snd (max_by_getctime d xs w) = snd (max_loop d ys (x, t) ?w1)"
      by (simp add: os_path_getctime_def)
    with evs(1) have "snd (max_by_getctime d xs w) = w\<lparr>trace := trace w @ (Getctime ?p # evs)\<rparr>"
      by simp
    with evs(2) show ?thesis by (intro exI[of _ "Getctime ?p # evs"]) simp
  qed
qed

text \<open>The selection does not read the trace.\<close>

lemma max_loop_trace_irrelevant:
  "fst (max_loop d xs best (w\<lparr>trace := t\<rparr>)) = fst (max_loop d xs best w)"
proof (induction xs arbitrary: best w t)
  case Nil
  show ?case by simp
next
  case (Cons x xs)
  show ?case
  proof (cases "ctime w (path_join d x)")
    case (Inl e)
    then show ?thesis by (simp add: os_path_getctime_def)
  next
    case (Inr c)
    let ?b = "if c > snd best then (x, c) else best"
    have "fst (max_loop d (x # xs) best (w\<lparr>trace := t\<rparr>))
        = fst (max_loop d xs ?b (w\<lparr>trace := t @ [Getctime (path_join d x)]\<rparr>))"
      using Inr by (simp add: os_path_getctime_def)
    also have "\<dots> = fst (max_loop d xs ?b w)" by (rule Cons.IH)
    also have "\<dots> = fst (max_loop d xs ?b (w\<lparr>trace := trace w @ [Getctime (path_join d x)]\<rparr>))"
      by (rule Cons.IH[symmetric])
    also have "\<dots> = fst (max_loop d (x # xs) best w)"
      using Inr by (simp add: os_path_getctime_def)
    finally show ?thesis .
  qed
qed

lemma max_by_getctime_trace_irrelevant:
  "fst (max_by_getctime d xs (w\<lparr>trace := t\<rparr>)) = fst (max_by_getctime d xs w)"
proof (cases xs)
  case Nil
  then show ?thesis by simp
next
  case (Cons x ys)
  show ?thesis
  proof (cases "ctime w (path_join d x)")
    case (Inl e)
    with Cons show ?thesis by (simp add: os_path_getctime_def)
  next
    case (Inr c)
    have "fst (max_by_getctime d xs (w\<lparr>trace := t\<rparr>))
        = fst (max_loop d ys (x, c) (w\<lparr>trace := t @ [Getctime (path_join d x)]\<rparr>))"
      using Inr Cons by (simp add: os_path_getctime_def)
    also have "\<dots> = fst (max_loop d ys (x, c) w)" by (rule max_loop_trace_irrelevant)
    also have "\<dots> = fst (max_loop d ys (x, c) (w\<lparr>trace := trace w @ [Getctime (path_join d x)]\<rparr>))"
      by (rule max_loop_trace_irrelevant[symmetric])
    also have "\<dots> = fst (max_by_getctime d xs w)"
      using Inr Cons by (simp add: os_path_getctime_def)
    finally show ?thesis .
  qed
qed



lemma try_bind_assoc_some:
  "try_bind (try_bind m (\<lambda>r. Inr (g r))) (\<lambda>r. Inr (Some r)) = try_bind m (\<lambda>r. Inr (Some (g r)))"
  by (cases m) (simp_all add: try_bind_def)

lemma autogen_locate_shape: "autogen_locate a = locate_with autogen_record a"
  by (simp add: autogen_locate_def locate_with_def Let_def)

lemma crewai_locate_shape: "crewai_locate a = locate_with crewai_build a"
  unfolding crewai_locate_def locate_with_def crewai_build_def Let_def try_bind_assoc_some
  by (rule refl)

lemma autogen_shape:
  "transcribe_video a v e w = handled id (after_run id autogen_record (autogen_cmd a v e) a) w"
  unfolding transcribe_video_def autogen_try_def handled_def after_run_def
    autogen_locate_shape Let_def id_apply
  by (rule refl)

lemma py_get_obj: "py_get (JObj kvs) k d = Inr (case map_of kvs k of Some v \<Rightarrow> v | None \<Rightarrow> d)"
  by simp

lemma py_get_not_obj:
  assumes "\<And>kvs. data \<noteq> JObj kvs"
  shows "py_get data k d = Inl (AttributeError (type_name data) ''get'')"
proof (cases data)
  case (JObj kvs)
  with assms show ?thesis by blast
qed simp_all


lemma crewai_not_dict:
  assumes "\<And>kvs. data \<noteq> JObj kvs"
  shows "VideoTranscriptionTool_run a (Inr data) w
       = (compact (failed (str_exn (AttributeError (type_name data) ''get''))), w)"
  using py_get_not_obj[OF assms]
  by (simp add: VideoTranscriptionTool_run_def crewai_try_def io_bind_def io_return_def compact_def)

lemma crewai_validation:
  assumes "py_get data ''video_path'' JNull = Inr vp" and "\<not> truthy vp"
  shows "VideoTranscriptionTool_run a (Inr data) w = (compact validation_record, w)"
proof -
  from assms(1) obtain kvs where "data = JObj kvs" by (cases data) auto
  with assms show ?thesis
    by (simp add: VideoTranscriptionTool_run_def crewai_try_def io_bind_def io_return_def
        compact_def validation_record_def)
qed

lemma crewai_shape:
  assumes "py_get data ''video_path'' JNull = Inr vp" and "truthy vp"
    and "py_get data ''enhance'' (JBool True) = Inr enh"
    and "py_get data ''output_format'' (JStr ''json'') = Inr fmt"
  shows "VideoTranscriptionTool_run a (Inr data) w
       = handled compact (after_run compact crewai_build (crewai_cmd a vp fmt enh) a) w"
proof -
  have "crewai_try a (Inr data) w = after_run compact crewai_build (crewai_cmd a vp fmt enh) a w"
    unfolding crewai_try_def after_run_def crewai_locate_shape Let_def compact_def
    using assms by (simp add: io_bind_def io_return_def)
  then show ?thesis
    unfolding VideoTranscriptionTool_run_def handled_def compact_def by simp
qed

text \<open>The five ways through the shared control flow.\<close>

lemma run_raises:
  assumes "run_outcome w cmd a = Inl ex"
  shows "handled wrap (after_run wrap build cmd a) w
       = (wrap (failed (str_exn ex)), w\<lparr>trace := trace w @ [Subprocess_run cmd a]\<rparr>)"
  using assms by (simp add: handled_def after_run_def io_bind_def subprocess_run_def)

lemma run_nonzero:
  assumes "run_outcome w cmd a = Inr cp" and "returncode cp \<noteq> 0"
  shows "handled wrap (after_run wrap build cmd a) w
       = (wrap (failed (stderr_or_default cp)), w\<lparr>trace := trace w @ [Subprocess_run cmd a]\<rparr>)"
  using assms by (simp add: handled_def after_run_def io_bind_def subprocess_run_def io_return_def)

lemma listing_raises:
  assumes "run_outcome w cmd a = Inr cp" and "returncode cp = 0"
    and "dir_entries w (the_output_dir a) = Inl ex"
  shows "handled wrap (after_run wrap build cmd a) w
       = (wrap (failed (str_exn ex)),
          w\<lparr>trace := trace w @ [Subprocess_run cmd a, Listdir (the_output_dir a)]\<rparr>)"
  using assms
  by (simp add: handled_def after_run_def locate_with_def io_bind_def subprocess_run_def
      os_listdir_def io_return_def)

lemma nothing_matches:
  assumes "run_outcome w cmd a = Inr cp" and "returncode cp = 0"
    and "dir_entries w (the_output_dir a) = Inr names" and "matching_files names = []"
  shows "handled wrap (after_run wrap build cmd a) w
       = (wrap (failed (stderr_or_default cp)),
          w\<lparr>trace := trace w @ [Subprocess_run cmd a, Listdir (the_output_dir a)]\<rparr>)"
  using assms
  by (simp add: handled_def after_run_def locate_with_def io_bind_def subprocess_run_def
      os_listdir_def io_return_def)

lemma something_matches:
  assumes "run_outcome w cmd a = Inr cp" and "returncode cp = 0"
    and "dir_entries w (the_output_dir a) = Inr names" and "matching_files names \<noteq> []"
  shows "fst (handled wrap (after_run wrap build cmd a) w)
       = (case fst (max_by_getctime (the_output_dir a) (matching_files names) w) of
            Inl ex \<Rightarrow> wrap (failed (str_exn ex))
          | Inr latest_file \<Rightarrow>
              result_of_artifact wrap build (file_json w (path_join (the_output_dir a) latest_file)))"
proof -
  let ?d = "the_output_dir a"
  let ?w2 = "w\<lparr>trace := trace w @ [Subprocess_run cmd a, Listdir ?d]\<rparr>"
  obtain sel w3 where sel: "max_by_getctime ?d (matching_files names) ?w2 = (sel, w3)"
    by (cases "max_by_getctime ?d (matching_files names) ?w2")
  have sel_eq: "fst (max_by_getctime ?d (matching_files names) w) = sel"
    using max_by_getctime_trace_irrelevant[where d = ?d and xs = "matching_files names"
        and w = w and t = "trace w @ [Subprocess_run cmd a, Listdir ?d]"] sel by simp
  from max_by_getctime_world[of ?d "matching_files names" ?w2] sel
  obtain evs where w3: "w3 = ?w2\<lparr>trace := trace ?w2 @ evs\<rparr>" by auto
  then have fj: "file_json w3 = file_json w" by simp
  show ?thesis
    unfolding sel_eq using assms sel fj
    by (simp add: handled_def after_run_def locate_with_def io_bind_def subprocess_run_def
        os_listdir_def io_return_def open_json_load_def result_of_artifact_def try_bind_def
        split: sum.splits)
qed

lemmas world_defs = mk_world_def exit_ok_def exit_1_silent_def exit_1_message_def
  world_ab_def world_empty_dir_def world_no_dir_def world_malformed_def
  world_exit_1_silent_def world_exit_1_message_def world_no_node_def world_of_artifact_def
  world_a_touched_def world_dangling_def

section \<open>The process exits with a non-zero status\<close>

text \<open>
  C8 (as the code has it). When the external process exits with a non-zero status, the
  only call either script makes to the outside is the process itself: no directory is
  listed, no file time is read and no file is opened. The record returned has
  \<open>success = False\<close> and, as its error, the process's standard-error text when that text is
  not empty and the fixed message \<open>Transcription failed\<close> when it is empty. For the CrewAI
  tool this is for an input that is an object with a truthy \<open>video_path\<close>.
\<close>

theorem C8_nonzero_exit_skips_location:
  "(run_outcome w (autogen_cmd a v e) a = Inr cp \<and> returncode cp \<noteq> 0 \<longrightarrow>
      transcribe_video a v e w =
        (failed (if stderr cp = [] then ''Transcription failed'' else stderr cp),
         w\<lparr>trace := trace w @ [Subprocess_run (autogen_cmd a v e) a]\<rparr>))
   \<and> (py_get data ''video_path'' JNull = Inr vp \<and> truthy vp
      \<and> py_get data ''enhance'' (JBool True) = Inr enh
      \<and> py_get data ''output_format'' (JStr ''json'') = Inr fmt
      \<and> run_outcome w (crewai_cmd a vp fmt enh) a = Inr cp \<and> returncode cp \<noteq> 0 \<longrightarrow>
      VideoTranscriptionTool_run a (Inr data) w =
        (Json_dumps (failed (if stderr cp = [] then ''Transcription failed'' else stderr cp)) None,
         w\<lparr>trace := trace w @ [Subprocess_run (crewai_cmd a vp fmt enh) a]\<rparr>))"
proof (intro conjI impI)
  assume "run_outcome w (autogen_cmd a v e) a = Inr cp \<and> returncode cp \<noteq> 0"
  then show "transcribe_video a v e w =
        (failed (if stderr cp = [] then ''Transcription failed'' else stderr cp),
         w\<lparr>trace := trace w @ [Subprocess_run (autogen_cmd a v e) a]\<rparr>)"
    by (simp add: autogen_shape run_nonzero stderr_or_default_def)
next
  assume h: "py_get data ''video_path'' JNull = Inr vp \<and> truthy vp
      \<and> py_get data ''enhance'' (JBool True) = Inr enh
      \<and> py_get data ''output_format'' (JStr ''json'') = Inr fmt
      \<and> run_outcome w (crewai_cmd a vp fmt enh) a = Inr cp \<and> returncode cp \<noteq> 0"
  then have "VideoTranscriptionTool_run a (Inr data) w
      = handled compact (after_run compact crewai_build (crewai_cmd a vp fmt enh) a) w"
    by (intro crewai_shape) simp_all
  with h show "VideoTranscriptionTool_run a (Inr data) w =
        (Json_dumps (failed (if stderr cp = [] then ''Transcription failed'' else stderr cp)) None,
         w\<lparr>trace := trace w @ [Subprocess_run (crewai_cmd a vp fmt enh) a]\<rparr>)"
    by (simp add: run_nonzero stderr_or_default_def compact_def)
qed

text \<open>A process that exits with status 1 and writes \<open>ffmpeg not found\<close> to standard error.\<close>

theorem C8_witness:
  "fst (transcribe_video ''agent'' ''talk.mp4'' True world_exit_1_message)
     = [(''success'', JBool False), (''error'', JStr ''ffmpeg not found'')]
   \<and> trace (snd (transcribe_video ''agent'' ''talk.mp4'' True world_exit_1_message))
     = [Subprocess_run (autogen_cmd ''agent'' ''talk.mp4'' True) ''agent'']
   \<and> fst (VideoTranscriptionTool_run ''agent'' input_ok world_exit_1_message)
     = Json_dumps [(''success'', JBool False), (''error'', JStr ''ffmpeg not found'')] None
   \<and> trace (snd (VideoTranscriptionTool_run ''agent'' input_ok world_exit_1_message))
     = [Subprocess_run (crewai_cmd ''agent'' (JStr ''talk.mp4'') (JStr ''json'') (JBool True)) ''agent'']"
  using C8_nonzero_exit_skips_location[of world_exit_1_message "''agent''" "''talk.mp4''" True
      "\<lparr>returncode = 1, stdout = [], stderr = ''ffmpeg not found''\<rparr>"
      "JObj [(''video_path'', JStr ''talk.mp4'')]" "JStr ''talk.mp4''" "JBool True" "JStr ''json''"]
  by (simp add: world_defs input_ok_def failed_def)

text \<open>
  A process that exits with status 1 and writes nothing to standard error: the error
  message is not the (empty) standard-error text.
\<close>

theorem C8_counterexample:
  "run_outcome world_exit_1_silent (autogen_cmd ''agent'' ''talk.mp4'' True) ''agent''
     = Inr \<lparr>returncode = 1, stdout = [], stderr = []\<rparr>
   \<and> fst (transcribe_video ''agent'' ''talk.mp4'' True world_exit_1_silent)
     = [(''success'', JBool False), (''error'', JStr ''Transcription failed'')]
   \<and> fst (transcribe_video ''agent'' ''talk.mp4'' True world_exit_1_silent)
     \<noteq> [(''success'', JBool False), (''error'', JStr [])]"
  by (simp add: world_defs autogen_shape run_nonzero stderr_or_default_def failed_def)

section \<open>No matching artifact, or no directory\<close>

text \<open>
  C5 (as the code has it). After a process that exited with status 0: when listing the
  output directory raises (the directory is missing or cannot be read), the record returned
  has \<open>success = False\<close> and the message of that exception as its error; when the listing
  succeeds and no name ends in \<open>_transcription.json\<close>, the record has \<open>success = False\<close>
  and, as its error, the process's standard-error text, or \<open>Transcription failed\<close> when
  that text is empty. Neither script produces the names \<open>NoArtifactFound\<close> or \<open>IOUnavailable\<close>.
\<close>

theorem C5_no_artifact_or_no_directory:
  "(run_outcome w (autogen_cmd a v e) a = Inr cp \<and> returncode cp = 0 \<longrightarrow>
      (dir_entries w (the_output_dir a) = Inl ex \<longrightarrow>
         fst (transcribe_video a v e w) = failed (str_exn ex))
    \<and> (dir_entries w (the_output_dir a) = Inr names \<and> matching_files names = [] \<longrightarrow>
         fst (transcribe_video a v e w)
           = failed (if stderr cp = [] then ''Transcription failed'' else stderr cp)))
   \<and> (py_get data ''video_path'' JNull = Inr vp \<and> truthy vp
      \<and> py_get data ''enhance'' (JBool True) = Inr enh
      \<and> py_get data ''output_format'' (JStr ''json'') = Inr fmt
      \<and> run_outcome w (crewai_cmd a vp fmt enh) a = Inr cp \<and> returncode cp = 0 \<longrightarrow>
      (dir_entries w (the_output_dir a) = Inl ex \<longrightarrow>
         fst (VideoTranscriptionTool_run a (Inr data) w) = Json_dumps (failed (str_exn ex)) None)
    \<and> (dir_entries w (the_output_dir a) = Inr names \<and> matching_files names = [] \<longrightarrow>
         fst (VideoTranscriptionTool_run a (Inr data) w)
           = Json_dumps (failed (if stderr cp = [] then ''Transcription failed'' else stderr cp)) None))"
proof (intro conjI impI)
  assume "run_outcome w (autogen_cmd a v e) a = Inr cp \<and> returncode cp = 0"
    and "dir_entries w (the_output_dir a) = Inl ex"
  then show "fst (transcribe_video a v e w) = failed (str_exn ex)"
    by (simp add: autogen_shape listing_raises)
next
  assume "run_outcome w (autogen_cmd a v e) a = Inr cp \<and> returncode cp = 0"
    and "dir_entries w (the_output_dir a) = Inr names \<and> matching_files names = []"
  then show "fst (transcribe_video a v e w)
      = failed (if stderr cp = [] then ''Transcription failed'' else stderr cp)"
    by (simp add: autogen_shape nothing_matches stderr_or_default_def)
next
  assume h: "py_get data ''video_path'' JNull = Inr vp \<and> truthy vp
      \<and> py_get data ''enhance'' (JBool True) = Inr enh
      \<and> py_get data ''output_format'' (JStr ''json'') = Inr fmt
      \<and> run_outcome w (crewai_cmd a vp fmt enh) a = Inr cp \<and> returncode cp = 0"
    and l: "dir_entries w (the_output_dir a) = Inl ex"
  from h have "VideoTranscriptionTool_run a (Inr data) w
      = handled compact (after_run compact crewai_build (crewai_cmd a vp fmt enh) a) w"
    by (intro crewai_shape) simp_all
  with h l show "fst (VideoTranscriptionTool_run a (Inr data) w) = Json_dumps (failed (str_exn ex)) None"
    by (simp add: listing_raises compact_def)
next
  assume h: "py_get data ''video_path'' JNull = Inr vp \<and> truthy vp
      \<and> py_get data ''enhance'' (JBool True) = Inr enh
      \<and> py_get data ''output_format'' (JStr ''json'') = Inr fmt
      \<and> run_outcome w (crewai_cmd a vp fmt enh) a = Inr cp \<and> returncode cp = 0"
    and l: "dir_entries w (the_output_dir a) = Inr names \<and> matching_files names = []"
  from h have "VideoTranscriptionTool_run a (Inr data) w
      = handled compact (after_run compact crewai_build (crewai_cmd a vp fmt enh) a) w"
    by (intro crewai_shape) simp_all
  with h l show "fst (VideoTranscriptionTool_run a (Inr data) w)
      = Json_dumps (failed (if stderr cp = [] then ''Transcription failed'' else stderr cp)) None"
    by (simp add: nothing_matches stderr_or_default_def compact_def)
qed

text \<open>A missing output directory, and an empty one.\<close>

theorem C5_witness:
  "fst (transcribe_video ''agent'' ''talk.mp4'' True world_no_dir)
     = [(''success'', JBool False), (''error'', JStr no_such_directory)]
   \<and> fst (transcribe_video ''agent'' ''talk.mp4'' True world_empty_dir)
     = [(''success'', JBool False), (''error'', JStr ''Transcription failed'')]
   \<and> fst (VideoTranscriptionTool_run ''agent'' input_ok world_no_dir)
     = Json_dumps [(''success'', JBool False), (''error'', JStr no_such_directory)] None
   \<and> fst (VideoTranscriptionTool_run ''agent'' input_ok world_empty_dir)
     = Json_dumps [(''success'', JBool False), (''error'', JStr ''Transcription failed'')] None"
  using C5_no_artifact_or_no_directory[of world_no_dir "''agent''" "''talk.mp4''" True
      "\<lparr>returncode = 0, stdout = [], stderr = []\<rparr>"
      "OSError no_such_directory" "[]"
      "JObj [(''video_path'', JStr ''talk.mp4'')]" "JStr ''talk.mp4''" "JBool True" "JStr ''json''"]
    C5_no_artifact_or_no_directory[of world_empty_dir "''agent''" "''talk.mp4''" True
      "\<lparr>returncode = 0, stdout = [], stderr = []\<rparr>"
      "OSError []" "[]"
      "JObj [(''video_path'', JStr ''talk.mp4'')]" "JStr ''talk.mp4''" "JBool True" "JStr ''json''"]
  by (simp add: world_defs input_ok_def failed_def path_join_def)

text \<open>In neither world is the error one of the two names of the specification.\<close>

theorem C5_counterexample:
  "dir_entries world_empty_dir (the_output_dir ''agent'') = Inr []
   \<and> fst (transcribe_video ''agent'' ''talk.mp4'' True world_empty_dir)
     = [(''success'', JBool False), (''error'', JStr ''Transcription failed'')]
   \<and> fst (transcribe_video ''agent'' ''talk.mp4'' True world_empty_dir)
     \<noteq> [(''success'', JBool False), (''error'', JStr ''NoArtifactFound'')]
   \<and> fst (transcribe_video ''agent'' ''talk.mp4'' True world_no_dir)
     \<noteq> [(''success'', JBool False), (''error'', JStr ''NoArtifactFound'')]
   \<and> fst (transcribe_video ''agent'' ''talk.mp4'' True world_no_dir)
     \<noteq> [(''success'', JBool False), (''error'', JStr ''IOUnavailable'')]"
proof -
  have e: "fst (transcribe_video ''agent'' ''talk.mp4'' True world_empty_dir)
      = failed ''Transcription failed''"
    by (simp add: autogen_shape world_defs path_join_def stderr_or_default_def
        nothing_matches[where cp = "\<lparr>returncode = 0, stdout = [], stderr = []\<rparr>" and names = "[]"])
  have n: "fst (transcribe_video ''agent'' ''talk.mp4'' True world_no_dir)
      = failed no_such_directory"
    by (simp add: autogen_shape world_defs path_join_def
        listing_raises[where cp = "\<lparr>returncode = 0, stdout = [], stderr = []\<rparr>"
          and ex = "OSError no_such_directory"])
  show ?thesis unfolding e n
    by (simp add: failed_def world_defs path_join_def no_such_directory_def quoted_def)
qed

section \<open>The selected artifact cannot be parsed\<close>

lemma selected_needs_match:
  "fst (max_by_getctime d xs w) = Inr f \<Longrightarrow> xs \<noteq> []"
  by (cases xs) auto

lemma opened_artifact:
  assumes "run_outcome w cmd a = Inr cp" and "returncode cp = 0"
    and "dir_entries w (the_output_dir a) = Inr names"
    and "fst (max_by_getctime (the_output_dir a) (matching_files names) w) = Inr latest_file"
  shows "fst (handled wrap (after_run wrap build cmd a) w)
       = result_of_artifact wrap build (file_json w (path_join (the_output_dir a) latest_file))"
  using something_matches[OF assms(1-3) selected_needs_match[OF assms(4)], of wrap build] assms(4)
  by simp

text \<open>
  C6 (as the code has it). After a process that exited with status 0, when the file the
  script selects (of the names ending in \<open>_transcription.json\<close>, the one for which
  \<^verbatim>\<open>os.path.getctime\<close> is greatest) cannot be opened or
  its content is not valid JSON, the record returned has \<open>success = False\<close> and the message
  of the exception that \<^verbatim>\<open>open\<close> or \<^verbatim>\<open>json.load\<close> raised as its error. The exception
  does not reach the caller; the name \<open>MalformedArtifact\<close> is not produced.
\<close>

theorem C6_malformed_artifact:
  "(run_outcome w (autogen_cmd a v e) a = Inr cp \<and> returncode cp = 0
      \<and> dir_entries w (the_output_dir a) = Inr names
      \<and> fst (max_by_getctime (the_output_dir a) (matching_files names) w) = Inr latest_file
      \<and> file_json w (path_join (the_output_dir a) latest_file) = Inl ex \<longrightarrow>
      fst (transcribe_video a v e w) = failed (str_exn ex))
   \<and> (py_get data ''video_path'' JNull = Inr vp \<and> truthy vp
      \<and> py_get data ''enhance'' (JBool True) = Inr enh
      \<and> py_get data ''output_format'' (JStr ''json'') = Inr fmt
      \<and> run_outcome w (crewai_cmd a vp fmt enh) a = Inr cp \<and> returncode cp = 0
      \<and> dir_entries w (the_output_dir a) = Inr names
      \<and> fst (max_by_getctime (the_output_dir a) (matching_files names) w) = Inr latest_file
      \<and> file_json w (path_join (the_output_dir a) latest_file) = Inl ex \<longrightarrow>
      fst (VideoTranscriptionTool_run a (Inr data) w) = Json_dumps (failed (str_exn ex)) None)"
proof (intro conjI impI)
  assume h: "run_outcome w (autogen_cmd a v e) a = Inr cp \<and> returncode cp = 0
      \<and> dir_entries w (the_output_dir a) = Inr names
      \<and> fst (max_by_getctime (the_output_dir a) (matching_files names) w) = Inr latest_file
      \<and> file_json w (path_join (the_output_dir a) latest_file) = Inl ex"
  then have "fst (transcribe_video a v e w)
      = result_of_artifact id autogen_record (file_json w (path_join (the_output_dir a) latest_file))"
    unfolding autogen_shape by (intro opened_artifact[where cp = cp and names = names]) simp_all
  with h show "fst (transcribe_video a v e w) = failed (str_exn ex)"
    by (simp add: result_of_artifact_def)
next
  assume h: "py_get data ''video_path'' JNull = Inr vp \<and> truthy vp
      \<and> py_get data ''enhance'' (JBool True) = Inr enh
      \<and> py_get data ''output_format'' (JStr ''json'') = Inr fmt
      \<and> run_outcome w (crewai_cmd a vp fmt enh) a = Inr cp \<and> returncode cp = 0
      \<and> dir_entries w (the_output_dir a) = Inr names
      \<and> fst (max_by_getctime (the_output_dir a) (matching_files names) w) = Inr latest_file
      \<and> file_json w (path_join (the_output_dir a) latest_file) = Inl ex"
  then have "VideoTranscriptionTool_run a (Inr data) w
      = handled compact (after_run compact crewai_build (crewai_cmd a vp fmt enh) a) w"
    by (intro crewai_shape) simp_all
  moreover from h have "fst (handled compact (after_run compact crewai_build (crewai_cmd a vp fmt enh) a) w)
      = result_of_artifact compact crewai_build (file_json w (path_join (the_output_dir a) latest_file))"
    by (intro opened_artifact[where cp = cp and names = names]) simp_all
  ultimately show "fst (VideoTranscriptionTool_run a (Inr data) w) = Json_dumps (failed (str_exn ex)) None"
    using h by (simp add: result_of_artifact_def compact_def)
qed

text \<open>One matching file, whose content is not JSON.\<close>

lemma world_malformed_selected:
  "fst (max_by_getctime ''agent/output'' [''A_transcription.json''] world_malformed)
     = Inr ''A_transcription.json''"
  by (simp add: world_defs os_path_getctime_def path_join_def)

theorem C6_witness:
  "fst (transcribe_video ''agent'' ''talk.mp4'' True world_malformed)
     = [(''success'', JBool False), (''error'', JStr ''Expecting value: line 1 column 1 (char 0)'')]
   \<and> fst (VideoTranscriptionTool_run ''agent'' input_ok world_malformed)
     = Json_dumps [(''success'', JBool False),
                   (''error'', JStr ''Expecting value: line 1 column 1 (char 0)'')] None"
  using C6_malformed_artifact[of world_malformed "''agent''" "''talk.mp4''" True
      "\<lparr>returncode = 0, stdout = [], stderr = []\<rparr>" "[''A_transcription.json'']"
      "''A_transcription.json''" "JSONDecodeError ''Expecting value: line 1 column 1 (char 0)''"
      "JObj [(''video_path'', JStr ''talk.mp4'')]" "JStr ''talk.mp4''" "JBool True" "JStr ''json''"]
    world_malformed_selected
  by (simp add: world_defs input_ok_def failed_def path_join_def endswith_def)

text \<open>The error is the parser's message, not \<open>MalformedArtifact\<close>.\<close>

theorem C6_counterexample:
  "file_json world_malformed ''agent/output/A_transcription.json''
     = Inl (JSONDecodeError ''Expecting value: line 1 column 1 (char 0)'')
   \<and> fst (transcribe_video ''agent'' ''talk.mp4'' True world_malformed)
     = [(''success'', JBool False), (''error'', JStr ''Expecting value: line 1 column 1 (char 0)'')]
   \<and> fst (transcribe_video ''agent'' ''talk.mp4'' True world_malformed)
     \<noteq> [(''success'', JBool False), (''error'', JStr ''MalformedArtifact'')]"
proof -
  have "fst (transcribe_video ''agent'' ''talk.mp4'' True world_malformed)
      = result_of_artifact id autogen_record
          (file_json world_malformed (path_join (the_output_dir ''agent'') ''A_transcription.json''))"
    unfolding autogen_shape
    by (rule opened_artifact[where cp = "\<lparr>returncode = 0, stdout = [], stderr = []\<rparr>"
          and names = "[''A_transcription.json'']"])
       (simp_all add: world_defs path_join_def endswith_def os_path_getctime_def)
  then show ?thesis
    by (simp add: world_defs path_join_def result_of_artifact_def failed_def)
qed

section \<open>Every failure is returned as a record\<close>

text \<open>
  C7. Whatever the input, in each kind of failure the call returns a record with exactly the
  two entries \<open>success = False\<close> and \<open>error\<close>, a message: when the process exits with a
  non-zero status, when the output directory cannot be listed, when no name in it matches,
  and when the selected artifact cannot be opened or parsed; also when the process cannot be
  started at all. In the model an exception is a value \<open>Inl e\<close> inside the \<^verbatim>\<open>try\<close> suite;
  the two functions return records, never \<open>Inl e\<close>. For the CrewAI tool the process runs
  only for an input that is an object with a truthy \<open>video_path\<close>.
\<close>

theorem C7_every_failure_is_a_record:
  "(run_outcome w (autogen_cmd a v e) a = Inl ex \<longrightarrow>
      fst (transcribe_video a v e w) = failed (str_exn ex))
   \<and> (run_outcome w (autogen_cmd a v e) a = Inr cp \<and> returncode cp \<noteq> 0 \<longrightarrow>
      fst (transcribe_video a v e w) = failed (stderr_or_default cp))
   \<and> (run_outcome w (autogen_cmd a v e) a = Inr cp \<and> returncode cp = 0
      \<and> dir_entries w (the_output_dir a) = Inl ex \<longrightarrow>
      fst (transcribe_video a v e w) = failed (str_exn ex))
   \<and> (run_outcome w (autogen_cmd a v e) a = Inr cp \<and> returncode cp = 0
      \<and> dir_entries w (the_output_dir a) = Inr names \<and> matching_files names = [] \<longrightarrow>
      fst (transcribe_video a v e w) = failed (stderr_or_default cp))
   \<and> (run_outcome w (autogen_cmd a v e) a = Inr cp \<and> returncode cp = 0
      \<and> dir_entries w (the_output_dir a) = Inr names
      \<and> fst (max_by_getctime (the_output_dir a) (matching_files names) w) = Inr latest_file
      \<and> file_json w (path_join (the_output_dir a) latest_file) = Inl ex \<longrightarrow>
      fst (transcribe_video a v e w) = failed (str_exn ex))
   \<and> (py_get data ''video_path'' JNull = Inr vp \<and> truthy vp
      \<and> py_get data ''enhance'' (JBool True) = Inr enh
      \<and> py_get data ''output_format'' (JStr ''json'') = Inr fmt \<longrightarrow>
        (run_outcome w (crewai_cmd a vp fmt enh) a = Inl ex \<longrightarrow>
           fst (VideoTranscriptionTool_run a (Inr data) w) = Json_dumps (failed (str_exn ex)) None)
      \<and> (run_outcome w (crewai_cmd a vp fmt enh) a = Inr cp \<and> returncode cp \<noteq> 0 \<longrightarrow>
           fst (VideoTranscriptionTool_run a (Inr data) w)
             = Json_dumps (failed (stderr_or_default cp)) None)
      \<and> (run_outcome w (crewai_cmd a vp fmt enh) a = Inr cp \<and> returncode cp = 0
         \<and> dir_entries w (the_output_dir a) = Inl ex \<longrightarrow>
           fst (VideoTranscriptionTool_run a (Inr data) w) = Json_dumps (failed (str_exn ex)) None)
      \<and> (run_outcome w (crewai_cmd a vp fmt enh) a = Inr cp \<and> returncode cp = 0
         \<and> dir_entries w (the_output_dir a) = Inr names \<and> matching_files names = [] \<longrightarrow>
           fst (VideoTranscriptionTool_run a (Inr data) w)
             = Json_dumps (failed (stderr_or_default cp)) None)
      \<and> (run_outcome w (crewai_cmd a vp fmt enh) a = Inr cp \<and> returncode cp = 0
         \<and> dir_entries w (the_output_dir a) = Inr names
         \<and> fst (max_by_getctime (the_output_dir a) (matching_files names) w) = Inr latest_file
         \<and> file_json w (path_join (the_output_dir a) latest_file) = Inl ex \<longrightarrow>
           fst (VideoTranscriptionTool_run a (Inr data) w) = Json_dumps (failed (str_exn ex)) None))"
proof -
  let ?A = "handled id (after_run id autogen_record (autogen_cmd a v e) a) w"
  have a1: "run_outcome w (autogen_cmd a v e) a = Inl ex \<Longrightarrow> fst ?A = failed (str_exn ex)"
    by (simp add: run_raises)
  have a2: "run_outcome w (autogen_cmd a v e) a = Inr cp \<Longrightarrow> returncode cp \<noteq> 0
      \<Longrightarrow> fst ?A = failed (stderr_or_default cp)"
    by (simp add: run_nonzero)
  have a3: "run_outcome w (autogen_cmd a v e) a = Inr cp \<Longrightarrow> returncode cp = 0
      \<Longrightarrow> dir_entries w (the_output_dir a) = Inl ex \<Longrightarrow> fst ?A = failed (str_exn ex)"
    by (simp add: listing_raises)
  have a4: "run_outcome w (autogen_cmd a v e) a = Inr cp \<Longrightarrow> returncode cp = 0
      \<Longrightarrow> dir_entries w (the_output_dir a) = Inr names \<Longrightarrow> matching_files names = []
      \<Longrightarrow> fst ?A = failed (stderr_or_default cp)"
    by (simp add: nothing_matches)
  have a5: "run_outcome w (autogen_cmd a v e) a = Inr cp \<Longrightarrow> returncode cp = 0
      \<Longrightarrow> dir_entries w (the_output_dir a) = Inr names
      \<Longrightarrow> fst (max_by_getctime (the_output_dir a) (matching_files names) w) = Inr latest_file
      \<Longrightarrow> file_json w (path_join (the_output_dir a) latest_file) = Inl ex
      \<Longrightarrow> fst ?A = failed (str_exn ex)"
    by (simp add: opened_artifact[where cp = cp and names = names] result_of_artifact_def)
  let ?cmd = "crewai_cmd a vp fmt enh"
  let ?C = "handled compact (after_run compact crewai_build ?cmd a) w"
  have c1: "run_outcome w ?cmd a = Inl ex \<Longrightarrow> fst ?C = compact (failed (str_exn ex))"
    by (simp add: run_raises)
  have c2: "run_outcome w ?cmd a = Inr cp \<Longrightarrow> returncode cp \<noteq> 0
      \<Longrightarrow> fst ?C = compact (failed (stderr_or_default cp))"
    by (simp add: run_nonzero)
  have c3: "run_outcome w ?cmd a = Inr cp \<Longrightarrow> returncode cp = 0
      \<Longrightarrow> dir_entries w (the_output_dir a) = Inl ex \<Longrightarrow> fst ?C = compact (failed (str_exn ex))"
    by (simp add: listing_raises)
  have c4: "run_outcome w ?cmd a = Inr cp \<Longrightarrow> returncode cp = 0
      \<Longrightarrow> dir_entries w (the_output_dir a) = Inr names \<Longrightarrow> matching_files names = []
      \<Longrightarrow> fst ?C = compact (failed (stderr_or_default cp))"
    by (simp add: nothing_matches)
  have c5: "run_outcome w ?cmd a = Inr cp \<Longrightarrow> returncode cp = 0
      \<Longrightarrow> dir_entries w (the_output_dir a) = Inr names
      \<Longrightarrow> fst (max_by_getctime (the_output_dir a) (matching_files names) w) = Inr latest_file
      \<Longrightarrow> file_json w (path_join (the_output_dir a) latest_file) = Inl ex
      \<Longrightarrow> fst ?C = compact (failed (str_exn ex))"
    by (simp add: opened_artifact[where cp = cp and names = names] result_of_artifact_def)
  have shape: "py_get data ''video_path'' JNull = Inr vp \<Longrightarrow> truthy vp
      \<Longrightarrow> py_get data ''enhance'' (JBool True) = Inr enh
      \<Longrightarrow> py_get data ''output_format'' (JStr ''json'') = Inr fmt
      \<Longrightarrow> VideoTranscriptionTool_run a (Inr data) w = ?C"
    by (rule crewai_shape)
  show ?thesis
    unfolding autogen_shape
    using a1 a2 a3 a4 a5 c1 c2 c3 c4 c5 shape
    by (simp add: compact_def)
qed

text \<open>One world for each kind of failure.\<close>

theorem C7_witness:
  "fst (transcribe_video ''agent'' ''talk.mp4'' True world_no_node)
     = [(''success'', JBool False), (''error'', JStr no_such_program)]
   \<and> fst (transcribe_video ''agent'' ''talk.mp4'' True world_exit_1_message)
     = [(''success'', JBool False), (''error'', JStr ''ffmpeg not found'')]
   \<and> fst (transcribe_video ''agent'' ''talk.mp4'' True world_no_dir)
     = [(''success'', JBool False), (''error'', JStr no_such_directory)]
   \<and> fst (transcribe_video ''agent'' ''talk.mp4'' True world_empty_dir)
     = [(''success'', JBool False), (''error'', JStr ''Transcription failed'')]
   \<and> fst (transcribe_video ''agent'' ''talk.mp4'' True world_malformed)
     = [(''success'', JBool False), (''error'', JStr ''Expecting value: line 1 column 1 (char 0)'')]
   \<and> fst (VideoTranscriptionTool_run ''agent'' input_ok world_no_node)
     = Json_dumps [(''success'', JBool False), (''error'', JStr no_such_program)] None
   \<and> fst (VideoTranscriptionTool_run ''agent'' input_ok world_exit_1_message)
     = Json_dumps [(''success'', JBool False), (''error'', JStr ''ffmpeg not found'')] None
   \<and> fst (VideoTranscriptionTool_run ''agent'' input_ok world_no_dir)
     = Json_dumps [(''success'', JBool False), (''error'', JStr no_such_directory)] None
   \<and> fst (VideoTranscriptionTool_run ''agent'' input_ok world_empty_dir)
     = Json_dumps [(''success'', JBool False), (''error'', JStr ''Transcription failed'')] None
   \<and> fst (VideoTranscriptionTool_run ''agent'' input_ok world_malformed)
     = Json_dumps [(''success'', JBool False),
                   (''error'', JStr ''Expecting value: line 1 column 1 (char 0)'')] None"
proof -
  note inst = C7_every_failure_is_a_record[where a = "''agent''" and v = "''talk.mp4''" and e = True
      and data = "JObj [(''video_path'', JStr ''talk.mp4'')]" and vp = "JStr ''talk.mp4''"
      and enh = "JBool True" and fmt = "JStr ''json''"]
  note ev = world_defs input_ok_def failed_def path_join_def endswith_def stderr_or_default_def
  have 1: "fst (transcribe_video ''agent'' ''talk.mp4'' True world_no_node)
        = [(''success'', JBool False), (''error'', JStr no_such_program)]
      \<and> fst (VideoTranscriptionTool_run ''agent'' input_ok world_no_node)
        = Json_dumps [(''success'', JBool False), (''error'', JStr no_such_program)] None"
    using inst[where w = world_no_node and ex = "OSError no_such_program"]
    by (simp add: ev)
  have 2: "fst (transcribe_video ''agent'' ''talk.mp4'' True world_exit_1_message)
        = [(''success'', JBool False), (''error'', JStr ''ffmpeg not found'')]
      \<and> fst (VideoTranscriptionTool_run ''agent'' input_ok world_exit_1_message)
        = Json_dumps [(''success'', JBool False), (''error'', JStr ''ffmpeg not found'')] None"
    using inst[where w = world_exit_1_message
        and cp = "\<lparr>returncode = 1, stdout = [], stderr = ''ffmpeg not found''\<rparr>"]
    by (simp add: ev)
  have 3: "fst (transcribe_video ''agent'' ''talk.mp4'' True world_no_dir)
        = [(''success'', JBool False), (''error'', JStr no_such_directory)]
      \<and> fst (VideoTranscriptionTool_run ''agent'' input_ok world_no_dir)
        = Json_dumps [(''success'', JBool False), (''error'', JStr no_such_directory)] None"
    using inst[where w = world_no_dir and ex = "OSError no_such_directory"
        and cp = "\<lparr>returncode = 0, stdout = [], stderr = []\<rparr>"]
    by (simp add: ev)
  have 4: "fst (transcribe_video ''agent'' ''talk.mp4'' True world_empty_dir)
        = [(''success'', JBool False), (''error'', JStr ''Transcription failed'')]
      \<and> fst (VideoTranscriptionTool_run ''agent'' input_ok world_empty_dir)
        = Json_dumps [(''success'', JBool False), (''error'', JStr ''Transcription failed'')] None"
    using inst[where w = world_empty_dir and names = "[]"
        and cp = "\<lparr>returncode = 0, stdout = [], stderr = []\<rparr>"]
    by (simp add: ev)
  have 5: "fst (transcribe_video ''agent'' ''talk.mp4'' True world_malformed)
        = [(''success'', JBool False), (''error'', JStr ''Expecting value: line 1 column 1 (char 0)'')]
      \<and> fst (VideoTranscriptionTool_run ''agent'' input_ok world_malformed)
        = Json_dumps [(''success'', JBool False),
                      (''error'', JStr ''Expecting value: line 1 column 1 (char 0)'')] None"
    using inst[where w = world_malformed and names = "[''A_transcription.json'']"
        and latest_file = "''A_transcription.json''"
        and ex = "JSONDecodeError ''Expecting value: line 1 column 1 (char 0)''"
        and cp = "\<lparr>returncode = 0, stdout = [], stderr = []\<rparr>"]
      world_malformed_selected
    by (simp add: ev)
  from 1 2 3 4 5 show ?thesis by simp
qed

section \<open>The file with the greatest time is the one opened\<close>



lemma crewai_record_doc_full:
  "crewai_record doc_full =
     Inr [(''success'', JBool True), (''transcription'', JStr ''Hello, world.''),
          (''summary'', JStr ''greeting''), (''key_points'', JArr [JStr ''greeting'']),
          (''topics'', JArr [JStr ''intro'']), (''sentiment'', JStr ''neutral''),
          (''confidence'', JFloat (Finite 8106479329266893 (-53))), (''output_files'', JArr [])]"
  by (simp add: crewai_record_def doc_full_def try_bind_def)

section \<open>Locating twice\<close>

text \<open>The location step appends to the trace and changes nothing else; its result does not depend on the trace.\<close>

lemma locate_with_world:
  "\<exists>evs. snd (locate_with build a w) = w\<lparr>trace := trace w @ evs\<rparr>"
proof -
  let ?d = "the_output_dir a"
  let ?w1 = "w\<lparr>trace := trace w @ [Listdir ?d]\<rparr>"
  show ?thesis
  proof (cases "dir_entries w ?d")
    case (Inl ex)
    then have "snd (locate_with build a w) = w\<lparr>trace := trace w @ [Listdir ?d]\<rparr>"
      by (simp add: locate_with_def io_bind_def os_listdir_def)
    then show ?thesis by blast
  next
    case (Inr names)
    show ?thesis
    proof (cases "matching_files names = []")
      case True
      with Inr have "snd (locate_with build a w) = w\<lparr>trace := trace w @ [Listdir ?d]\<rparr>"
        by (simp add: locate_with_def io_bind_def os_listdir_def io_return_def)
      then show ?thesis by blast
    next
      case False
      obtain sel w2 where sel: "max_by_getctime ?d (matching_files names) ?w1 = (sel, w2)"
        by (cases "max_by_getctime ?d (matching_files names) ?w1")
      from max_by_getctime_world[of ?d "matching_files names" ?w1] sel
      obtain evs where w2: "w2 = w\<lparr>trace := trace w @ Listdir ?d # evs\<rparr>" by auto
      show ?thesis
      proof (cases sel)
        case (Inl ex)
        with Inr False sel have "snd (locate_with build a w) = w2"
          by (simp add: locate_with_def io_bind_def os_listdir_def)
        with w2 show ?thesis by blast
      next
        case (Inr f)
        with \<open>dir_entries w ?d = Inr names\<close> False sel
        have "snd (locate_with build a w) = w2\<lparr>trace := trace w2 @ [Open_json_load (path_join ?d f)]\<rparr>"
          by (simp add: locate_with_def io_bind_def os_listdir_def open_json_load_def io_return_def
              split: sum.splits)
        with w2 have "snd (locate_with build a w)
            = w\<lparr>trace := trace w @ (Listdir ?d # evs @ [Open_json_load (path_join ?d f)])\<rparr>"
          by simp
        then show ?thesis by blast
      qed
    qed
  qed
qed

lemma locate_with_result:
  "fst (locate_with build a w) =
     (case dir_entries w (the_output_dir a) of
        Inl ex \<Rightarrow> Inl ex
      | Inr names \<Rightarrow>
          if matching_files names \<noteq> [] then
            (case fst (max_by_getctime (the_output_dir a) (matching_files names) w) of
               Inl ex \<Rightarrow> Inl ex
             | Inr latest_file \<Rightarrow>
                 (case file_json w (path_join (the_output_dir a) latest_file) of
                    Inl ex \<Rightarrow> Inl ex
                  | Inr data \<Rightarrow> try_bind (build data) (\<lambda>r. Inr (Some r))))
          else Inr None)"
proof -
  let ?d = "the_output_dir a"
  let ?w1 = "w\<lparr>trace := trace w @ [Listdir ?d]\<rparr>"
  show ?thesis
  proof (cases "dir_entries w ?d")
    case (Inl ex)
    then show ?thesis by (simp add: locate_with_def io_bind_def os_listdir_def)
  next
    case (Inr names)
    show ?thesis
    proof (cases "matching_files names = []")
      case True
      with Inr show ?thesis
        by (simp add: locate_with_def io_bind_def os_listdir_def io_return_def)
    next
      case False
      obtain sel w2 where sel: "max_by_getctime ?d (matching_files names) ?w1 = (sel, w2)"
        by (cases "max_by_getctime ?d (matching_files names) ?w1")
      have sel_eq: "fst (max_by_getctime ?d (matching_files names) w) = sel"
        using max_by_getctime_trace_irrelevant[where d = ?d and xs = "matching_files names"
            and w = w and t = "trace w @ [Listdir ?d]"] sel by simp
      from max_by_getctime_world[of ?d "matching_files names" ?w1] sel
      obtain evs where "w2 = ?w1\<lparr>trace := trace ?w1 @ evs\<rparr>" by auto
      then have fj: "file_json w2 = file_json w" by simp
      show ?thesis
        using sel fj
        by (simp add: Inr False sel_eq locate_with_def io_bind_def os_listdir_def
            open_json_load_def io_return_def split: sum.splits)
    qed
  qed
qed

lemma locate_with_trace_irrelevant:
  "fst (locate_with build a (w\<lparr>trace := t\<rparr>)) = fst (locate_with build a w)"
  by (simp add: locate_with_result max_by_getctime_trace_irrelevant
      cong: if_cong sum.case_cong)

text \<open>
  C9. The location step (listing, filtering, selecting a file, loading it and
  building the record) leaves the entries of the directory, their times and
  their contents as they were, and run a second time, on the world the first run left,
  it yields the same outcome as the first: the same record, the same exception or the
  same absence of a match.
\<close>

theorem C9_locate_twice_same_result:
  "fst (autogen_locate a (snd (autogen_locate a w))) = fst (autogen_locate a w)
   \<and> dir_entries (snd (autogen_locate a w)) = dir_entries w
   \<and> ctime (snd (autogen_locate a w)) = ctime w
   \<and> file_json (snd (autogen_locate a w)) = file_json w
   \<and> fst (crewai_locate a (snd (crewai_locate a w))) = fst (crewai_locate a w)
   \<and> dir_entries (snd (crewai_locate a w)) = dir_entries w
   \<and> ctime (snd (crewai_locate a w)) = ctime w
   \<and> file_json (snd (crewai_locate a w)) = file_json w"
proof -
  obtain ea where ea: "snd (locate_with autogen_record a w) = w\<lparr>trace := trace w @ ea\<rparr>"
    using locate_with_world by blast
  obtain ec where ec: "snd (locate_with crewai_build a w) = w\<lparr>trace := trace w @ ec\<rparr>"
    using locate_with_world by blast
  show ?thesis
    unfolding autogen_locate_shape crewai_locate_shape ea ec
    by (simp add: locate_with_trace_irrelevant)
qed

section \<open>A directory with a single artifact\<close>

lemma single_artifact_selected:
  "fst (max_by_getctime ''agent/output'' [''A_transcription.json''] (world_of_artifact loaded))
     = Inr ''A_transcription.json''"
  by (simp add: world_defs os_path_getctime_def path_join_def)

lemma single_artifact_autogen:
  "fst (transcribe_video ''agent'' v e (world_of_artifact loaded)) = autogen_result_of loaded"
proof -
  have "fst (transcribe_video ''agent'' v e (world_of_artifact loaded))
      = result_of_artifact id autogen_record
          (file_json (world_of_artifact loaded)
             (path_join (the_output_dir ''agent'') ''A_transcription.json''))"
    unfolding autogen_shape
    by (rule opened_artifact[where cp = "\<lparr>returncode = 0, stdout = [], stderr = []\<rparr>"
          and names = "[''A_transcription.json'']"])
       (simp_all add: world_defs path_join_def endswith_def os_path_getctime_def)
  then show ?thesis
    by (simp add: autogen_result_of_def world_defs path_join_def)
qed

lemma single_artifact_crewai:
  "fst (VideoTranscriptionTool_run ''agent'' input_ok (world_of_artifact loaded))
     = crewai_result_of loaded"
proof -
  let ?cmd = "crewai_cmd ''agent'' (JStr ''talk.mp4'') (JStr ''json'') (JBool True)"
  have "VideoTranscriptionTool_run ''agent'' input_ok (world_of_artifact loaded)
      = handled compact (after_run compact crewai_build ?cmd ''agent'') (world_of_artifact loaded)"
    unfolding input_ok_def by (rule crewai_shape) simp_all
  moreover have "fst (handled compact (after_run compact crewai_build ?cmd ''agent'') (world_of_artifact loaded))
      = result_of_artifact compact crewai_build
          (file_json (world_of_artifact loaded)
             (path_join (the_output_dir ''agent'') ''A_transcription.json''))"
    by (rule opened_artifact[where cp = "\<lparr>returncode = 0, stdout = [], stderr = []\<rparr>"
          and names = "[''A_transcription.json'']"])
       (simp_all add: world_defs path_join_def endswith_def os_path_getctime_def)
  ultimately show ?thesis
    by (simp add: crewai_result_of_def world_defs path_join_def)
qed

section \<open>The CrewAI tool without a video path\<close>

text \<open>
  C10 (as the code has it). For every input of the CrewAI tool that parses as a JSON
  object and has no \<open>video_path\<close> entry, or one whose value is falsy, the value returned is
  \<^verbatim>\<open>json.dumps({"error": "video_path is required"})\<close>: a record with the single entry
  \<open>error\<close>, so with no \<open>success\<close> flag and none of the other result fields. Nothing is
  called: the world, trace included, is as before.
\<close>

theorem C10_video_path_required:
  "\<not> truthy (case map_of kvs ''video_path'' of Some v \<Rightarrow> v | None \<Rightarrow> JNull) \<longrightarrow>
     VideoTranscriptionTool_run a (Inr (JObj kvs)) w
       = (Json_dumps [(''error'', JStr ''video_path is required'')] None, w)"
  using crewai_validation[of "JObj kvs" "case map_of kvs ''video_path'' of Some v \<Rightarrow> v | None \<Rightarrow> JNull" a w]
  by (simp add: compact_def validation_record_def)

text \<open>No entry, an empty string, and \<^verbatim>\<open>null\<close>.\<close>

theorem C10_witness:
  "VideoTranscriptionTool_run ''agent'' (Inr (JObj [])) world_ab
     = (Json_dumps [(''error'', JStr ''video_path is required'')] None, world_ab)
   \<and> VideoTranscriptionTool_run ''agent'' (Inr (JObj [(''video_path'', JStr []), (''enhance'', JBool False)])) world_ab
     = (Json_dumps [(''error'', JStr ''video_path is required'')] None, world_ab)
   \<and> VideoTranscriptionTool_run ''agent'' (Inr (JObj [(''video_path'', JNull)])) world_ab
     = (Json_dumps [(''error'', JStr ''video_path is required'')] None, world_ab)"
  using C10_video_path_required[of "[]" "''agent''" world_ab]
    C10_video_path_required[of "[(''video_path'', JStr []), (''enhance'', JBool False)]" "''agent''" world_ab]
    C10_video_path_required[of "[(''video_path'', JNull)]" "''agent''" world_ab]
  by simp

text \<open>
  The input \<^verbatim>\<open>[]\<close> parses as JSON and has no \<open>video_path\<close> entry, but a list has no
  \<^verbatim>\<open>get\<close>: the \<^verbatim>\<open>AttributeError\<close> is caught and the failure record is returned.
\<close>

theorem C10_counterexample:
  "fst (VideoTranscriptionTool_run ''agent'' (Inr (JArr [])) world_ab)
     = Json_dumps [(''success'', JBool False),
                   (''error'', JStr (quoted ''list'' @ '' object has no attribute '' @ quoted ''get''))] None
   \<and> fst (VideoTranscriptionTool_run ''agent'' (Inr (JArr [])) world_ab)
     \<noteq> Json_dumps [(''error'', JStr ''video_path is required'')] None"
  by (simp add: crewai_not_dict compact_def failed_def)

section \<open>The records built from an artifact\<close>

lemma autogen_record_entries:
  assumes "autogen_record data = Inr r"
  shows "\<exists>t s k tp sn. r = [(''success'', JBool True), (''transcription'', t), (''summary'', s),
                            (''keyPoints'', k), (''topics'', tp), (''sentiment'', sn)]"
  using assms by (auto simp: autogen_record_def try_bind_def split: sum.splits)

lemma crewai_record_entries:
  assumes "crewai_record data = Inr r"
  shows "\<exists>t s k tp sn c f. r = [(''success'', JBool True), (''transcription'', t), (''summary'', s),
                                (''key_points'', k), (''topics'', tp), (''sentiment'', sn),
                                (''confidence'', c), (''output_files'', f)]"
  using assms by (auto simp: crewai_record_def try_bind_def split: sum.splits)

lemma autogen_record_defaults:
  assumes "autogen_record data = Inr r" and "py_get data ''enhancement'' (JObj []) = Inr (JObj enh)"
  shows "map_of r ''summary'' = Some (case map_of enh ''summary'' of Some v \<Rightarrow> v | None \<Rightarrow> JNull)"
    and "map_of r ''keyPoints'' = Some (case map_of enh ''keyPoints'' of Some v \<Rightarrow> v | None \<Rightarrow> JArr [])"
    and "map_of r ''topics'' = Some (case map_of enh ''topics'' of Some v \<Rightarrow> v | None \<Rightarrow> JArr [])"
    and "map_of r ''sentiment'' = Some (case map_of enh ''sentiment'' of Some v \<Rightarrow> v | None \<Rightarrow> JNull)"
  using assms
  by (auto simp: autogen_record_def enhancement_get_def try_bind_def split: sum.splits)

lemma crewai_record_defaults:
  assumes "crewai_record data = Inr r" and "py_get data ''enhancement'' (JObj []) = Inr (JObj enh)"
  shows "map_of r ''summary'' = Some (case map_of enh ''summary'' of Some v \<Rightarrow> v | None \<Rightarrow> JStr [])"
    and "map_of r ''key_points'' = Some (case map_of enh ''keyPoints'' of Some v \<Rightarrow> v | None \<Rightarrow> JArr [])"
    and "map_of r ''topics'' = Some (case map_of enh ''topics'' of Some v \<Rightarrow> v | None \<Rightarrow> JArr [])"
    and "map_of r ''sentiment'' = Some (case map_of enh ''sentiment'' of Some v \<Rightarrow> v | None \<Rightarrow> JStr ''neutral'')"
  using assms
  by (auto simp: crewai_record_def try_bind_def split: sum.splits)

lemma crewai_record_confidence:
  assumes "crewai_record data = Inr r" and "py_get data ''transcription'' (JObj []) = Inr (JObj tr)"
  shows "map_of r ''confidence'' = Some (case map_of tr ''confidence'' of Some v \<Rightarrow> v | None \<Rightarrow> JInt 0)"
  using assms
  by (auto simp: crewai_record_def try_bind_def split: sum.splits)

text \<open>
  C3 (as the code has it). A record built on success by \<^verbatim>\<open>transcribe_video\<close> has
  exactly the fields \<open>success\<close>, \<open>transcription\<close>, \<open>summary\<close>, \<open>keyPoints\<close>, \<open>topics\<close>
  and \<open>sentiment\<close>; one built by the CrewAI tool has exactly \<open>success\<close>, \<open>transcription\<close>,
  \<open>summary\<close>, \<open>key_points\<close>, \<open>topics\<close>, \<open>sentiment\<close>, \<open>confidence\<close> and \<open>output_files\<close>.
  Neither has an \<open>error\<close> field, and \<open>success\<close> is \<open>True\<close>. A list-valued field absent
  from the enhancement section is the empty list; an absent sentiment is \<^verbatim>\<open>None\<close> in
  \<^verbatim>\<open>transcribe_video\<close> and \<open>neutral\<close> in the CrewAI tool; an absent confidence is \<open>0\<close> in
  the CrewAI tool.
\<close>

theorem C3_fields_of_a_success_record:
  "(autogen_record data = Inr r \<longrightarrow>
      map fst r = [''success'', ''transcription'', ''summary'', ''keyPoints'', ''topics'', ''sentiment'']
    \<and> map_of r ''success'' = Some (JBool True)
    \<and> (py_get data ''enhancement'' (JObj []) = Inr (JObj enh) \<longrightarrow>
         (map_of enh ''keyPoints'' = None \<longrightarrow> map_of r ''keyPoints'' = Some (JArr []))
       \<and> (map_of enh ''topics'' = None \<longrightarrow> map_of r ''topics'' = Some (JArr []))
       \<and> (map_of enh ''sentiment'' = None \<longrightarrow> map_of r ''sentiment'' = Some JNull)))
   \<and> (crewai_record data = Inr r' \<longrightarrow>
      map fst r' = [''success'', ''transcription'', ''summary'', ''key_points'', ''topics'',
                    ''sentiment'', ''confidence'', ''output_files'']
    \<and> map_of r' ''success'' = Some (JBool True)
    \<and> (py_get data ''enhancement'' (JObj []) = Inr (JObj enh) \<longrightarrow>
         (map_of enh ''keyPoints'' = None \<longrightarrow> map_of r' ''key_points'' = Some (JArr []))
       \<and> (map_of enh ''topics'' = None \<longrightarrow> map_of r' ''topics'' = Some (JArr []))
       \<and> (map_of enh ''sentiment'' = None \<longrightarrow> map_of r' ''sentiment'' = Some (JStr ''neutral'')))
    \<and> (py_get data ''transcription'' (JObj []) = Inr (JObj tr) \<longrightarrow>
         (map_of tr ''confidence'' = None \<longrightarrow> map_of r' ''confidence'' = Some (JInt 0))))"
proof (intro conjI impI)
  assume b: "autogen_record data = Inr r"
  from autogen_record_entries[OF b]
  show "map fst r = [''success'', ''transcription'', ''summary'', ''keyPoints'', ''topics'', ''sentiment'']"
    and "map_of r ''success'' = Some (JBool True)"
    by auto
  assume e: "py_get data ''enhancement'' (JObj []) = Inr (JObj enh)"
  { assume "map_of enh ''keyPoints'' = None"
    with autogen_record_defaults(2)[OF b e] show "map_of r ''keyPoints'' = Some (JArr [])" by simp }
  { assume "map_of enh ''topics'' = None"
    with autogen_record_defaults(3)[OF b e] show "map_of r ''topics'' = Some (JArr [])" by simp }
  { assume "map_of enh ''sentiment'' = None"
    with autogen_record_defaults(4)[OF b e] show "map_of r ''sentiment'' = Some JNull" by simp }
next
  assume b: "crewai_record data = Inr r'"
  from crewai_record_entries[OF b]
  show "map fst r' = [''success'', ''transcription'', ''summary'', ''key_points'', ''topics'',
                      ''sentiment'', ''confidence'', ''output_files'']"
    and "map_of r' ''success'' = Some (JBool True)"
    by auto
  { assume e: "py_get data ''enhancement'' (JObj []) = Inr (JObj enh)"
    { assume "map_of enh ''keyPoints'' = None"
      with crewai_record_defaults(2)[OF b e] show "map_of r' ''key_points'' = Some (JArr [])" by simp }
    { assume "map_of enh ''topics'' = None"
      with crewai_record_defaults(3)[OF b e] show "map_of r' ''topics'' = Some (JArr [])" by simp }
    { assume "map_of enh ''sentiment'' = None"
      with crewai_record_defaults(4)[OF b e] show "map_of r' ''sentiment'' = Some (JStr ''neutral'')" by simp } }
  { assume t: "py_get data ''transcription'' (JObj []) = Inr (JObj tr)" and "map_of tr ''confidence'' = None"
    with crewai_record_confidence[OF b t] show "map_of r' ''confidence'' = Some (JInt 0)" by simp }
qed

text \<open>Artifacts without an enhancement section, and without a confidence.\<close>

lemma autogen_record_doc_raw:
  "autogen_record doc_raw =
     Inr [(''success'', JBool True), (''transcription'', JStr ''hello world''),
          (''summary'', JNull), (''keyPoints'', JArr []), (''topics'', JArr []),
          (''sentiment'', JNull)]"
  by (simp add: autogen_record_def doc_raw_def enhancement_get_def try_bind_def)

lemma crewai_record_no_confidence:
  "crewai_record (JObj [(''transcription'', JObj [(''fullText'', JStr ''hello world'')])]) =
     Inr [(''success'', JBool True), (''transcription'', JStr ''hello world''),
          (''summary'', JStr []), (''key_points'', JArr []), (''topics'', JArr []),
          (''sentiment'', JStr ''neutral''), (''confidence'', JInt 0), (''output_files'', JArr [])]"
  by (simp add: crewai_record_def try_bind_def)

theorem C3_witness:
  "map fst (case autogen_record doc_raw of Inr r \<Rightarrow> r | Inl ex \<Rightarrow> [])
     = [''success'', ''transcription'', ''summary'', ''keyPoints'', ''topics'', ''sentiment'']
   \<and> map_of (case autogen_record doc_raw of Inr r \<Rightarrow> r | Inl ex \<Rightarrow> []) ''keyPoints'' = Some (JArr [])
   \<and> map_of (case autogen_record doc_raw of Inr r \<Rightarrow> r | Inl ex \<Rightarrow> []) ''topics'' = Some (JArr [])
   \<and> map_of (case autogen_record doc_raw of Inr r \<Rightarrow> r | Inl ex \<Rightarrow> []) ''sentiment'' = Some JNull
   \<and> crewai_record (JObj [(''transcription'', JObj [(''fullText'', JStr ''hello world'')])]) =
       Inr [(''success'', JBool True), (''transcription'', JStr ''hello world''),
            (''summary'', JStr []), (''key_points'', JArr []), (''topics'', JArr []),
            (''sentiment'', JStr ''neutral''), (''confidence'', JInt 0), (''output_files'', JArr [])]"
  using C3_fields_of_a_success_record[of doc_raw
      "[(''success'', JBool True), (''transcription'', JStr ''hello world''),
        (''summary'', JNull), (''keyPoints'', JArr []), (''topics'', JArr []), (''sentiment'', JNull)]"
      "[]" "[]" "[]"]
    C3_fields_of_a_success_record[of "JObj [(''transcription'', JObj [(''fullText'', JStr ''hello world'')])]"
      "[]" "[]"
      "[(''success'', JBool True), (''transcription'', JStr ''hello world''),
        (''summary'', JStr []), (''key_points'', JArr []), (''topics'', JArr []),
        (''sentiment'', JStr ''neutral''), (''confidence'', JInt 0), (''output_files'', JArr [])]"
      "[(''fullText'', JStr ''hello world'')]"]
  by (simp add: autogen_record_doc_raw crewai_record_no_confidence)

text \<open>
  The record of \<^verbatim>\<open>transcribe_video\<close> has no \<open>key_points\<close>, \<open>confidence\<close> or \<open>error\<close> field
  and its absent sentiment is \<^verbatim>\<open>None\<close>; in the CrewAI tool's record the absent sentiment is
  \<open>neutral\<close> and the absent confidence is \<open>0\<close>, and there is no \<open>error\<close> field.
\<close>

theorem C3_counterexample:
  "fst (transcribe_video ''agent'' ''talk.mp4'' True (world_of_artifact (Inr doc_raw)))
     = [(''success'', JBool True), (''transcription'', JStr ''hello world''),
        (''summary'', JNull), (''keyPoints'', JArr []), (''topics'', JArr []),
        (''sentiment'', JNull)]
   \<and> \<not> has_field (fst (transcribe_video ''agent'' ''talk.mp4'' True (world_of_artifact (Inr doc_raw)))) ''key_points''
   \<and> \<not> has_field (fst (transcribe_video ''agent'' ''talk.mp4'' True (world_of_artifact (Inr doc_raw)))) ''confidence''
   \<and> \<not> has_field (fst (transcribe_video ''agent'' ''talk.mp4'' True (world_of_artifact (Inr doc_raw)))) ''error''
   \<and> fst (VideoTranscriptionTool_run ''agent'' input_ok
            (world_of_artifact (Inr (JObj [(''transcription'', JObj [(''fullText'', JStr ''hello world'')])]))))
     = Json_dumps
        [(''success'', JBool True), (''transcription'', JStr ''hello world''),
         (''summary'', JStr []), (''key_points'', JArr []), (''topics'', JArr []),
         (''sentiment'', JStr ''neutral''), (''confidence'', JInt 0), (''output_files'', JArr [])]
        (Some 2)"
  by (simp add: single_artifact_autogen single_artifact_crewai autogen_result_of_def
      crewai_result_of_def result_of_artifact_def autogen_record_doc_raw crewai_record_no_confidence
      crewai_build_def try_bind_def has_field_def)

section \<open>Enhanced text and raw text\<close>

lemma enhanced_truthy_autogen:
  assumes "map_of kvs ''enhancement'' = Some (JObj enh)" and "map_of enh ''enhancedText'' = Some et"
    and "truthy et"
  shows "\<exists>s k tp sn. autogen_record (JObj kvs)
       = Inr [(''success'', JBool True), (''transcription'', et), (''summary'', s),
              (''keyPoints'', k), (''topics'', tp), (''sentiment'', sn)]"
  using assms by (simp add: autogen_record_def enhancement_get_def try_bind_def)

lemma enhanced_falsy_autogen:
  assumes "map_of kvs ''enhancement'' = Some (JObj enh)" and "map_of enh ''enhancedText'' = Some et"
    and "\<not> truthy et"
    and "map_of kvs ''transcription'' = Some (JObj tr)" and "map_of tr ''fullText'' = Some raw"
  shows "\<exists>s k tp sn. autogen_record (JObj kvs)
       = Inr [(''success'', JBool True), (''transcription'', raw), (''summary'', s),
              (''keyPoints'', k), (''topics'', tp), (''sentiment'', sn)]"
  using assms by (simp add: autogen_record_def enhancement_get_def try_bind_def)

lemma enhanced_truthy_crewai:
  assumes "crewai_record (JObj kvs) = Inr r"
    and "map_of kvs ''enhancement'' = Some (JObj enh)" and "map_of enh ''enhancedText'' = Some et"
    and "truthy et"
  shows "map_of r ''transcription'' = Some et"
  using assms by (auto simp: crewai_record_def try_bind_def split: sum.splits)

lemma enhanced_falsy_crewai:
  assumes "crewai_record (JObj kvs) = Inr r"
    and "map_of kvs ''enhancement'' = Some (JObj enh)" and "map_of enh ''enhancedText'' = Some et"
    and "\<not> truthy et"
    and "map_of kvs ''transcription'' = Some (JObj tr)" and "map_of tr ''fullText'' = Some raw"
  shows "map_of r ''transcription'' = Some raw"
  using assms by (auto simp: crewai_record_def try_bind_def split: sum.splits)

text \<open>
  C2 (as the code has it). For an artifact that is an object with an enhancement section
  holding an enhanced text and a transcription section holding a raw full text, the
  \<open>transcription\<close> field of the record returned is the enhanced text when that text is
  truthy (a non-empty string), and the raw full text when the enhanced text is falsy (the
  empty string). For the CrewAI tool this is for an artifact from which the record can be
  built (its \<open>metadata\<close> section, if any, is well formed).
\<close>

theorem C2_enhanced_text_when_not_empty:
  "(map_of kvs ''enhancement'' = Some (JObj enh) \<and> map_of enh ''enhancedText'' = Some et
      \<and> map_of kvs ''transcription'' = Some (JObj tr) \<and> map_of tr ''fullText'' = Some raw \<longrightarrow>
      map_of (autogen_result_of (Inr (JObj kvs))) ''success'' = Some (JBool True)
    \<and> map_of (autogen_result_of (Inr (JObj kvs))) ''transcription''
        = Some (if truthy et then et else raw))
   \<and> (map_of kvs ''enhancement'' = Some (JObj enh) \<and> map_of enh ''enhancedText'' = Some et
      \<and> map_of kvs ''transcription'' = Some (JObj tr) \<and> map_of tr ''fullText'' = Some raw
      \<and> crewai_record (JObj kvs) = Inr r \<longrightarrow>
      crewai_result_of (Inr (JObj kvs)) = Json_dumps r (Some 2)
    \<and> map_of r ''success'' = Some (JBool True)
    \<and> map_of r ''transcription'' = Some (if truthy et then et else raw))"
proof (intro conjI impI)
  assume h: "map_of kvs ''enhancement'' = Some (JObj enh) \<and> map_of enh ''enhancedText'' = Some et
      \<and> map_of kvs ''transcription'' = Some (JObj tr) \<and> map_of tr ''fullText'' = Some raw"
  have "\<exists>s k tp sn. autogen_record (JObj kvs)
      = Inr [(''success'', JBool True), (''transcription'', if truthy et then et else raw),
             (''summary'', s), (''keyPoints'', k), (''topics'', tp), (''sentiment'', sn)]"
  proof (cases "truthy et")
    case True
    with h enhanced_truthy_autogen[of kvs enh et] show ?thesis by simp
  next
    case False
    with h enhanced_falsy_autogen[of kvs enh et tr raw] show ?thesis by simp
  qed
  then obtain s k tp sn where rec: "autogen_record (JObj kvs)
      = Inr [(''success'', JBool True), (''transcription'', if truthy et then et else raw),
             (''summary'', s), (''keyPoints'', k), (''topics'', tp), (''sentiment'', sn)]"
    by blast
  show "map_of (autogen_result_of (Inr (JObj kvs))) ''success'' = Some (JBool True)"
    by (simp add: autogen_result_of_def result_of_artifact_def rec)
  show "map_of (autogen_result_of (Inr (JObj kvs))) ''transcription''
      = Some (if truthy et then et else raw)"
    by (simp add: autogen_result_of_def result_of_artifact_def rec)
next
  assume h: "map_of kvs ''enhancement'' = Some (JObj enh) \<and> map_of enh ''enhancedText'' = Some et
      \<and> map_of kvs ''transcription'' = Some (JObj tr) \<and> map_of tr ''fullText'' = Some raw
      \<and> crewai_record (JObj kvs) = Inr r"
  then show "crewai_result_of (Inr (JObj kvs)) = Json_dumps r (Some 2)"
    by (simp add: crewai_result_of_def result_of_artifact_def crewai_build_def try_bind_def)
  from h crewai_record_entries[of "JObj kvs" r]
  show "map_of r ''success'' = Some (JBool True)" by auto
  show "map_of r ''transcription'' = Some (if truthy et then et else raw)"
  proof (cases "truthy et")
    case True
    with h enhanced_truthy_crewai[of kvs r enh et] show ?thesis by simp
  next
    case False
    with h enhanced_falsy_crewai[of kvs r enh et tr raw] show ?thesis by simp
  qed
qed

text \<open>An artifact whose enhanced text is the empty string.\<close>

lemma autogen_record_doc_empty_enhanced:
  "autogen_record doc_empty_enhanced =
     Inr [(''success'', JBool True), (''transcription'', JStr ''hello world''),
          (''summary'', JNull), (''keyPoints'', JArr []), (''topics'', JArr []),
          (''sentiment'', JNull)]"
  by (simp add: autogen_record_def doc_empty_enhanced_def enhancement_get_def try_bind_def)

lemma crewai_record_doc_empty_enhanced:
  "crewai_record doc_empty_enhanced =
     Inr [(''success'', JBool True), (''transcription'', JStr ''hello world''),
          (''summary'', JStr []), (''key_points'', JArr []), (''topics'', JArr []),
          (''sentiment'', JStr ''neutral''),
          (''confidence'', JFloat (Finite 8106479329266893 (-53))), (''output_files'', JArr [])]"
  by (simp add: crewai_record_def doc_empty_enhanced_def try_bind_def)

text \<open>The end-to-end artifact, and the one with an empty enhanced text.\<close>

theorem C2_witness:
  "map_of (autogen_result_of (Inr doc_full)) ''transcription'' = Some (JStr ''Hello, world.'')
   \<and> map_of (payload (crewai_result_of (Inr doc_full))) ''transcription'' = Some (JStr ''Hello, world.'')
   \<and> map_of (autogen_result_of (Inr doc_empty_enhanced)) ''transcription'' = Some (JStr ''hello world'')
   \<and> map_of (payload (crewai_result_of (Inr doc_empty_enhanced))) ''transcription'' = Some (JStr ''hello world'')"
  using C2_enhanced_text_when_not_empty[of
      "[(''transcription'', JObj [(''fullText'', JStr ''hello world''), (''confidence'', JFloat (Finite 8106479329266893 (-53)))]),
        (''enhancement'', JObj [(''enhancedText'', JStr ''Hello, world.''), (''summary'', JStr ''greeting''),
                                (''keyPoints'', JArr [JStr ''greeting'']), (''topics'', JArr [JStr ''intro'']),
                                (''sentiment'', JStr ''neutral'')])]"
      "[(''enhancedText'', JStr ''Hello, world.''), (''summary'', JStr ''greeting''),
        (''keyPoints'', JArr [JStr ''greeting'']), (''topics'', JArr [JStr ''intro'']),
        (''sentiment'', JStr ''neutral'')]"
      "JStr ''Hello, world.''"
      "[(''fullText'', JStr ''hello world''), (''confidence'', JFloat (Finite 8106479329266893 (-53)))]"
      "JStr ''hello world''"
      "[(''success'', JBool True), (''transcription'', JStr ''Hello, world.''),
        (''summary'', JStr ''greeting''), (''key_points'', JArr [JStr ''greeting'']),
        (''topics'', JArr [JStr ''intro'']), (''sentiment'', JStr ''neutral''),
        (''confidence'', JFloat (Finite 8106479329266893 (-53))), (''output_files'', JArr [])]"]
    C2_enhanced_text_when_not_empty[of
      "[(''transcription'', JObj [(''fullText'', JStr ''hello world''), (''confidence'', JFloat (Finite 8106479329266893 (-53)))]),
        (''enhancement'', JObj [(''enhancedText'', JStr [])])]"
      "[(''enhancedText'', JStr [])]"
      "JStr []"
      "[(''fullText'', JStr ''hello world''), (''confidence'', JFloat (Finite 8106479329266893 (-53)))]"
      "JStr ''hello world''"
      "[(''success'', JBool True), (''transcription'', JStr ''hello world''),
        (''summary'', JStr []), (''key_points'', JArr []), (''topics'', JArr []),
        (''sentiment'', JStr ''neutral''),
        (''confidence'', JFloat (Finite 8106479329266893 (-53))), (''output_files'', JArr [])]"]
    crewai_record_doc_full crewai_record_doc_empty_enhanced
  by (simp add: doc_full_def doc_empty_enhanced_def)

text \<open>
  The artifact holds both texts, the enhanced one empty; the transcription returned is the
  raw text.
\<close>

theorem C2_counterexample:
  "enhancement_get doc_empty_enhanced ''enhancedText'' JNull = Inr (JStr [])
   \<and> try_bind (py_getitem doc_empty_enhanced ''transcription'') (\<lambda>t. py_getitem t ''fullText'')
     = Inr (JStr ''hello world'')
   \<and> map_of (fst (transcribe_video ''agent'' ''talk.mp4'' True (world_of_artifact (Inr doc_empty_enhanced))))
       ''transcription'' = Some (JStr ''hello world'')
   \<and> map_of (fst (transcribe_video ''agent'' ''talk.mp4'' True (world_of_artifact (Inr doc_empty_enhanced))))
       ''transcription'' \<noteq> Some (JStr [])
   \<and> map_of (payload (fst (VideoTranscriptionTool_run ''agent'' input_ok
                             (world_of_artifact (Inr doc_empty_enhanced)))))
       ''transcription'' = Some (JStr ''hello world'')"
  by (simp add: single_artifact_autogen single_artifact_crewai autogen_result_of_def
      crewai_result_of_def result_of_artifact_def autogen_record_doc_empty_enhanced
      crewai_record_doc_empty_enhanced crewai_build_def try_bind_def)
     (simp add: doc_empty_enhanced_def enhancement_get_def try_bind_def)

section \<open>Which of several matching artifacts is returned\<close>







section \<open>The shape of every result\<close>




















end
